theory Spec2Isabelle
  imports Complex_Main "HOL-Library.Log_Nat"
begin

section \<open>JavaScript numbers and their rendering\<close>

text \<open>
  A JavaScript number is an IEEE 754 double. The finite non-negative doubles are modelled
  by the rationals they denote. \<open>to_double x\<close> is the double nearest to \<open>x\<close> (ties to the
  even significand, 53 significant bits); it is exact IEEE rounding for \<open>x = 0\<close> and for
  every \<open>x\<close> in the normal range \<open>2 powi -1022 \<le> x < 2 powi 1024\<close>, which contains every
  quotient and product formed by \<open>calculateConversionRates\<close> from counters below \<open>2 ^ 53\<close>.
  The counters themselves are non-negative integers and are kept as \<open>nat\<close>; \<open>++\<close> on them
  is exact below \<open>2 ^ 53\<close>.
\<close>

definition ilog2 :: "rat \<Rightarrow> int" where
  \<comment> \<open>\<open>\<lfloor>log 2 x\<rfloor>\<close> for \<open>0 < x\<close>, computed on integers\<close>
  "ilog2 x = (if 1 \<le> x then int (floorlog 2 (nat \<lfloor>x\<rfloor>)) - 1
              else - int (floorlog 2 (nat \<lceil>1 / x\<rceil> - 1)))"

definition round_ties_even :: "rat \<Rightarrow> int" where
  "round_ties_even y =
     (let f = \<lfloor>y\<rfloor>; r = y - of_int f
      in if r < 1 / 2 then f else if 1 / 2 < r then f + 1 else if even f then f else f + 1)"

definition to_double :: "rat \<Rightarrow> rat" where
  "to_double x =
     (if x = 0 then 0
      else let e = ilog2 x - 52
           in of_int (round_ties_even (x / (2 powi e))) * (2 powi e))"

definition js_div :: "rat \<Rightarrow> rat \<Rightarrow> rat" where
  \<comment> \<open>the operator \<open>/\<close> on two doubles, divisor not zero\<close>
  "js_div x y = to_double (x / y)"

definition js_mul :: "rat \<Rightarrow> rat \<Rightarrow> rat" where
  \<comment> \<open>the operator \<open>*\<close> on two doubles\<close>
  "js_mul x y = to_double (x * y)"

definition digit_char :: "nat \<Rightarrow> char" where
  "digit_char d = ''0123456789'' ! d"

fun show_nat :: "nat \<Rightarrow> string" where
  \<comment> \<open>the decimal digits of a non-negative integer, as \<open>String(n)\<close> gives them\<close>
  "show_nat n = (if n < 10 then [digit_char n]
                 else show_nat (n div 10) @ [digit_char (n mod 10)])"

declare show_nat.simps [simp del]

definition fixed2 :: "nat \<Rightarrow> string" where
  \<comment> \<open>steps of \<open>Number.prototype.toFixed\<close> after the integer \<open>n\<close> is chosen, for two fraction
      digits: the digits of \<open>n\<close>, padded with zeros on the left to at least three, with a
      point before the last two\<close>
  "fixed2 n =
     (let m = show_nat n;
          m' = replicate (3 - length m) (CHR ''0'') @ m
      in take (length m' - 2) m' @ ''.'' @ drop (length m' - 2) m')"

definition toFixed2 :: "rat \<Rightarrow> string" where
  \<comment> \<open>\<open>x.toFixed(2)\<close> for a double \<open>0 \<le> x < 10 ^ 21\<close>: \<open>n\<close> is the integer for which
      \<open>n / 100 - x\<close> is closest to zero, the larger one when there are two\<close>
  "toFixed2 x = fixed2 (nat \<lfloor>x * 100 + 1 / 2\<rfloor>)"

definition rate :: "nat \<Rightarrow> nat \<Rightarrow> string" where
  \<comment> \<open>\<open>((numerator / denominator) * 100).toFixed(2)\<close>\<close>
  "rate numerator denominator =
     toFixed2 (js_mul (js_div (of_nat numerator) (of_nat denominator)) 100)"

section \<open>Dates\<close>

record jsdate =
  year :: nat
  month :: nat
  day :: nat
  hours :: nat
  minutes :: nat
  seconds :: nat
  milliseconds :: nat

definition pad :: "nat \<Rightarrow> nat \<Rightarrow> string" where
  "pad w n = replicate (w - length (show_nat n)) (CHR ''0'') @ show_nat n"

definition date_part :: "jsdate \<Rightarrow> string" where
  "date_part d =
     (if year d \<le> 9999 then pad 4 (year d) else ''+'' @ pad 6 (year d))
       @ ''-'' @ pad 2 (month d) @ ''-'' @ pad 2 (day d)"

definition toISOString :: "jsdate \<Rightarrow> string" where
  \<comment> \<open>\<open>YYYY-MM-DDTHH:mm:ss.sssZ\<close>, the year with a sign and six digits beyond 9999\<close>
  "toISOString d =
     date_part d @ ''T'' @ pad 2 (hours d) @ '':'' @ pad 2 (minutes d) @ '':''
       @ pad 2 (seconds d) @ ''.'' @ pad 3 (milliseconds d) @ ''Z''"

definition split_T_first :: "string \<Rightarrow> string" where
  \<comment> \<open>\<open>s.split('T')[0]\<close>\<close>
  "split_T_first s = takeWhile (\<lambda>c. c \<noteq> CHR ''T'') s"

section \<open>Plain objects used as dictionaries\<close>

text \<open>
  An object literal \<open>{}\<close> has its own properties, modelled by a map, and inherits the
  properties of \<open>Object.prototype\<close>. Reading \<open>obj[k]\<close> finds an own property first and an
  inherited one otherwise; the inherited values are functions (and, for \<open>__proto__\<close>, the
  prototype object), all truthy, all converted to \<open>NaN\<close> by \<open>++\<close>. Writing a primitive
  value to \<open>obj[k]\<close> creates or replaces an own property, except for \<open>__proto__\<close>, whose
  setter ignores primitive values.
\<close>

definition object_prototype_keys :: "string list" where
  "object_prototype_keys =
     [''constructor'', ''__defineGetter__'', ''__defineSetter__'', ''hasOwnProperty'',
      ''__lookupGetter__'', ''__lookupSetter__'', ''isPrototypeOf'', ''propertyIsEnumerable'',
      ''toString'', ''valueOf'', ''__proto__'', ''toLocaleString'']"

datatype 'v lookup = Own 'v | Inherited | Absent

definition get_prop :: "(string \<rightharpoonup> 'v) \<Rightarrow> string \<Rightarrow> 'v lookup" where
  "get_prop obj k =
     (case obj k of
        Some v \<Rightarrow> Own v
      | None \<Rightarrow> if k \<in> set object_prototype_keys then Inherited else Absent)"

definition set_prop :: "(string \<rightharpoonup> 'v) \<Rightarrow> string \<Rightarrow> 'v \<Rightarrow> (string \<rightharpoonup> 'v)" where
  "set_prop obj k v = (if k = ''__proto__'' then obj else obj(k \<mapsto> v))"

datatype jsnum = Num nat | NaN

fun truthy :: "jsnum lookup \<Rightarrow> bool" where
  "truthy (Own (Num n)) = (n \<noteq> 0)"
| "truthy (Own NaN) = False"
| "truthy Inherited = True"
| "truthy Absent = False"

fun to_number :: "jsnum lookup \<Rightarrow> jsnum" where
  "to_number (Own v) = v"
| "to_number Inherited = NaN"
| "to_number Absent = NaN"

fun js_inc :: "jsnum \<Rightarrow> jsnum" where
  "js_inc (Num n) = Num (n + 1)"
| "js_inc NaN = NaN"

section \<open>The data model\<close>

record funnel_metrics =
  quiz_loaded :: nat
  quiz_started :: nat
  quiz_completed :: nat
  sales_page_loaded :: nat
  sales_page_scrolled :: nat
  checkout_clicked :: nat

text \<open>The value of one key of \<open>dailyStats\<close>; its fields carry the prefix \<open>b_\<close>.\<close>

record day_bucket =
  b_sessions :: nat
  b_events :: "string \<rightharpoonup> jsnum"
  b_conversions :: "string \<rightharpoonup> jsnum"

text \<open>
  An element of \<open>sessions\<close>; its fields carry the prefix \<open>s_\<close>. \<open>lastActivity\<close> is not
  part of the object literal that creates a session and is assigned right after.
\<close>

record session =
  s_id :: string
  s_startTime :: string
  s_events :: "string list"
  s_funnel :: "string \<rightharpoonup> bool"
  s_lastActivity :: "string option"

text \<open>The object built at the head of \<open>trackEvent\<close>; \<open>'p\<close> is the type of payloads.\<close>

record 'p tracked_event =
  event :: string
  sessionId :: string
  timestamp :: string
  page :: string
  url :: string
  referrer :: string
  userAgent :: string
  screenResolution :: string
  data :: 'p

record 'p ledger =
  totalSessions :: nat
  events :: "'p tracked_event list"
  funnelMetrics :: funnel_metrics
  dailyStats :: "string \<rightharpoonup> day_bucket"
  conversionRates :: "string \<rightharpoonup> string"
  sessions :: "session list"

datatype js_error = TypeError | SyntaxError | SinkException

datatype sink = Undefined | Returns | Throws

text \<open>
  What one call reads from its surroundings: the fields of the instance that never change
  (\<open>this.sessionId\<close>, \<open>this.currentPage\<close>), the browser's descriptors, the four readings
  of the clock in the order \<open>trackEvent\<close> takes them, whether \<open>localStorage.setItem\<close>
  accepts the write, \<open>JSON.stringify\<close>, and the two ambient sinks.
\<close>

record 'p call_env =
  this_sessionId :: string
  this_currentPage :: string
  location_href :: string
  document_referrer :: string
  navigator_userAgent :: string
  screen_width :: nat
  screen_height :: nat
  now_timestamp :: jsdate
  now_today :: jsdate
  now_startTime :: jsdate
  now_lastActivity :: jsdate
  setItem_succeeds :: bool
  JSON_stringify :: "'p ledger \<Rightarrow> string"
  gtag :: sink
  fbq :: sink

text \<open>
  The instance and its store slot. \<open>this.data\<close> holds a reference to the ledger document,
  an object in the heap; \<open>fresh\<close> is the next unused address. \<open>localStorage\<close> is the
  content of the slot \<open>cronograma_analytics\<close>, \<open>None\<close> when the key is missing. The
  store is taken to be reachable: \<open>getItem\<close> and \<open>removeItem\<close> return, and only
  \<open>setItem\<close> may refuse (a full store), which \<open>saveData\<close> catches.
\<close>

record 'p world =
  heap :: "nat \<Rightarrow> 'p ledger"
  fresh :: nat
  this_data :: nat
  localStorage :: "string option"

definition document :: "'p world \<Rightarrow> 'p ledger" where
  "document w = heap w (this_data w)"

definition set_document :: "'p ledger \<Rightarrow> 'p world \<Rightarrow> 'p world" where
  \<comment> \<open>in-place mutation of the object \<open>this.data\<close> refers to\<close>
  "set_document d w = w\<lparr>heap := (heap w)(this_data w := d)\<rparr>"

section \<open>The operations\<close>

definition getDefaultData :: "'p ledger" where
  "getDefaultData =
     \<lparr>totalSessions = 0,
      events = [],
      funnelMetrics =
        \<lparr>quiz_loaded = 0, quiz_started = 0, quiz_completed = 0,
         sales_page_loaded = 0, sales_page_scrolled = 0, checkout_clicked = 0\<rparr>,
      dailyStats = Map.empty,
      conversionRates = Map.empty,
      sessions = []\<rparr>"

definition loadData :: "(string \<Rightarrow> js_error + 'p ledger) \<Rightarrow> string option \<Rightarrow> 'p ledger" where
  \<comment> \<open>the first argument is \<open>JSON.parse\<close>, \<open>Inl\<close> when it throws; the second is what
      \<open>localStorage.getItem\<close> returns; a missing key and the empty string are falsy\<close>
  "loadData JSON_parse stored =
     (case stored of
        None \<Rightarrow> getDefaultData
      | Some s \<Rightarrow>
          if s = [] then getDefaultData
          else (case JSON_parse s of
                  Inr d \<Rightarrow> d
                | Inl e \<Rightarrow> getDefaultData))"

definition saveData :: "'p call_env \<Rightarrow> 'p world \<Rightarrow> 'p world" where
  \<comment> \<open>the exception of a refused write is caught and logged\<close>
  "saveData ctx w =
     (if setItem_succeeds ctx
      then w\<lparr>localStorage := Some (JSON_stringify ctx (document w))\<rparr>
      else w)"

definition calculateConversionRates :: "'p ledger \<Rightarrow> 'p ledger" where
  "calculateConversionRates d =
     (let metrics = funnelMetrics d;
          r0 = conversionRates d;
          r1 = (if quiz_loaded metrics > 0
                then r0(''quizStartRate'' \<mapsto> rate (quiz_started metrics) (quiz_loaded metrics))
                else r0);
          r2 = (if quiz_started metrics > 0
                then r1(''quizCompletionRate'' \<mapsto>
                        rate (quiz_completed metrics) (quiz_started metrics))
                else r1);
          r3 = (if quiz_completed metrics > 0
                then r2(''salesPageViewRate'' \<mapsto>
                        rate (sales_page_loaded metrics) (quiz_completed metrics))
                else r2);
          r4 = (if sales_page_loaded metrics > 0
                then r3(''scrollRate'' \<mapsto>
                        rate (sales_page_scrolled metrics) (sales_page_loaded metrics))
                else r3);
          r5 = (if sales_page_scrolled metrics > 0
                then r4(''checkoutClickRate'' \<mapsto>
                        rate (checkout_clicked metrics) (sales_page_scrolled metrics))
                else r4);
          r6 = (if quiz_loaded metrics > 0
                then r5(''overallConversionRate'' \<mapsto>
                        rate (checkout_clicked metrics) (quiz_loaded metrics))
                else r5)
      in d\<lparr>conversionRates := r6\<rparr>)"

definition hasOwnProperty_metrics :: "string \<Rightarrow> bool" where
  \<comment> \<open>\<open>this.data.funnelMetrics.hasOwnProperty(eventName)\<close>: the six keys of the literal\<close>
  "hasOwnProperty_metrics k =
     (k \<in> set [''quiz_loaded'', ''quiz_started'', ''quiz_completed'',
               ''sales_page_loaded'', ''sales_page_scrolled'', ''checkout_clicked''])"

definition get_metric :: "string \<Rightarrow> funnel_metrics \<Rightarrow> nat" where
  "get_metric k m =
     (if k = ''quiz_loaded'' then quiz_loaded m
      else if k = ''quiz_started'' then quiz_started m
      else if k = ''quiz_completed'' then quiz_completed m
      else if k = ''sales_page_loaded'' then sales_page_loaded m
      else if k = ''sales_page_scrolled'' then sales_page_scrolled m
      else checkout_clicked m)"

definition inc_metric :: "string \<Rightarrow> funnel_metrics \<Rightarrow> funnel_metrics" where
  \<comment> \<open>\<open>this.data.funnelMetrics[eventName]++\<close> for one of the six keys\<close>
  "inc_metric k m =
     (if k = ''quiz_loaded'' then m\<lparr>quiz_loaded := quiz_loaded m + 1\<rparr>
      else if k = ''quiz_started'' then m\<lparr>quiz_started := quiz_started m + 1\<rparr>
      else if k = ''quiz_completed'' then m\<lparr>quiz_completed := quiz_completed m + 1\<rparr>
      else if k = ''sales_page_loaded'' then m\<lparr>sales_page_loaded := sales_page_loaded m + 1\<rparr>
      else if k = ''sales_page_scrolled''
        then m\<lparr>sales_page_scrolled := sales_page_scrolled m + 1\<rparr>
      else m\<lparr>checkout_clicked := checkout_clicked m + 1\<rparr>)"

definition bump_counter :: "string \<Rightarrow> (string \<rightharpoonup> jsnum) \<Rightarrow> (string \<rightharpoonup> jsnum)" where
  \<comment> \<open>\<open>if (!evs[name]) evs[name] = 0; evs[name]++\<close>\<close>
  "bump_counter name evs =
     (let evs1 = (if \<not> truthy (get_prop evs name) then set_prop evs name (Num 0) else evs)
      in set_prop evs1 name (js_inc (to_number (get_prop evs1 name))))"

definition update_dailyStats ::
  "string \<Rightarrow> string \<Rightarrow> (string \<rightharpoonup> day_bucket) \<Rightarrow> js_error + (string \<rightharpoonup> day_bucket)" where
  \<comment> \<open>an inherited property under the day key is truthy, so no bucket is created, and
      reading \<open>.events[name]\<close> from it throws\<close>
  "update_dailyStats today name ds =
     (case get_prop ds today of
        Absent \<Rightarrow>
          Inr (ds(today \<mapsto>
                 \<lparr>b_sessions = 0, b_events = bump_counter name Map.empty,
                  b_conversions = Map.empty\<rparr>))
      | Own b \<Rightarrow> Inr (ds(today \<mapsto> b\<lparr>b_events := bump_counter name (b_events b)\<rparr>))
      | Inherited \<Rightarrow> Inl TypeError)"

fun update_first :: "('a \<Rightarrow> bool) \<Rightarrow> ('a \<Rightarrow> 'a) \<Rightarrow> 'a list \<Rightarrow> 'a list" where
  \<comment> \<open>mutation of the element that \<open>Array.prototype.find\<close> returns\<close>
  "update_first P f [] = []"
| "update_first P f (x # xs) = (if P x then f x # xs else x # update_first P f xs)"

definition new_session :: "'p call_env \<Rightarrow> session" where
  \<comment> \<open>the object literal pushed when \<open>find\<close> returns nothing\<close>
  "new_session ctx =
     \<lparr>s_id = this_sessionId ctx,
      s_startTime = toISOString (now_startTime ctx),
      s_events = [],
      s_funnel = Map.empty,
      s_lastActivity = None\<rparr>"

definition touch_session :: "'p call_env \<Rightarrow> 'p tracked_event \<Rightarrow> session \<Rightarrow> session" where
  \<comment> \<open>the three statements that follow the \<open>if\<close>\<close>
  "touch_session ctx ev s =
     s\<lparr>s_events := s_events s @ [event ev],
       s_lastActivity := Some (toISOString (now_lastActivity ctx)),
       s_funnel := set_prop (s_funnel s) (event ev) True\<rparr>"

definition updateSessionData :: "'p call_env \<Rightarrow> 'p tracked_event \<Rightarrow> 'p ledger \<Rightarrow> 'p ledger" where
  "updateSessionData ctx ev d =
     (let found = find (\<lambda>s. s_id s = this_sessionId ctx) (sessions d);
          d1 = (case found of
                  Some s \<Rightarrow> d
                | None \<Rightarrow>
                    d\<lparr>sessions := sessions d @ [new_session ctx],
                      totalSessions := totalSessions d + 1\<rparr>)
      in d1\<lparr>sessions :=
              update_first (\<lambda>s. s_id s = this_sessionId ctx) (touch_session ctx ev)
                (sessions d1)\<rparr>)"

definition sendToExternalAnalytics :: "'p call_env \<Rightarrow> 'p tracked_event \<Rightarrow> js_error + unit" where
  \<comment> \<open>each sink is called when \<open>typeof\<close> finds it defined; nothing catches what it throws\<close>
  "sendToExternalAnalytics ctx ev =
     (if gtag ctx = Throws then Inl SinkException
      else if fbq ctx = Throws then Inl SinkException
      else Inr ())"

definition event_of :: "'p call_env \<Rightarrow> string \<Rightarrow> 'p \<Rightarrow> 'p tracked_event" where
  \<comment> \<open>the object literal at the head of \<open>trackEvent\<close>\<close>
  "event_of ctx eventName payload =
     \<lparr>event = eventName,
      sessionId = this_sessionId ctx,
      timestamp = toISOString (now_timestamp ctx),
      page = this_currentPage ctx,
      url = location_href ctx,
      referrer = document_referrer ctx,
      userAgent = navigator_userAgent ctx,
      screenResolution = show_nat (screen_width ctx) @ ''x'' @ show_nat (screen_height ctx),
      data = payload\<rparr>"

definition trackEvent ::
  "'p call_env \<Rightarrow> string \<Rightarrow> 'p \<Rightarrow> 'p world \<Rightarrow> 'p world \<times> (js_error + unit)" where
  "trackEvent ctx eventName payload w =
     (let ev = event_of ctx eventName payload;
          d0 = document w;
          d1 = d0\<lparr>events := events d0 @ [ev]\<rparr>;
          d2 = (if hasOwnProperty_metrics eventName
                then d1\<lparr>funnelMetrics := inc_metric eventName (funnelMetrics d1)\<rparr>
                else d1);
          today = split_T_first (toISOString (now_today ctx))
      in case update_dailyStats today eventName (dailyStats d2) of
           Inl e \<Rightarrow> (set_document d2 w, Inl e)
         | Inr ds \<Rightarrow>
             (let d3 = d2\<lparr>dailyStats := ds\<rparr>;
                  d4 = updateSessionData ctx ev d3;
                  d5 = calculateConversionRates d4;
                  w1 = saveData ctx (set_document d5 w)
              in (w1, sendToExternalAnalytics ctx ev)))"

definition getAnalytics :: "'p world \<Rightarrow> nat" where
  \<comment> \<open>\<open>return this.data\<close>: the reference itself\<close>
  "getAnalytics w = this_data w"

definition resetAnalytics :: "'p call_env \<Rightarrow> bool \<Rightarrow> 'p world \<Rightarrow> 'p world \<times> bool" where
  \<comment> \<open>the second argument is the answer of the \<open>confirm\<close> dialog; \<open>getDefaultData\<close> builds
      a new object\<close>
  "resetAnalytics ctx confirmed w =
     (if confirmed
      then (saveData ctx
              (w\<lparr>localStorage := None,
                 heap := (heap w)(fresh w := getDefaultData),
                 this_data := fresh w,
                 fresh := fresh w + 1\<rparr>),
            True)
      else (w, False))"

text \<open>
  What a caller holding a reference \<open>r\<close> to a ledger document does when it assigns to
  the object's properties: \<open>f\<close> is the change made to the object.
\<close>

definition caller_mutates :: "nat \<Rightarrow> ('p ledger \<Rightarrow> 'p ledger) \<Rightarrow> 'p world \<Rightarrow> 'p world" where
  "caller_mutates r f w = w\<lparr>heap := (heap w)(r := f (heap w r))\<rparr>"

text \<open>
  A run of calls of \<open>trackEvent\<close>, each with its own context, event name and payload. A
  call that throws ends there; the next call finds the state it left. The contexts of a
  run may differ in their session id: the instances of successive page loads work on
  the one document, which they hand on through the store slot.
\<close>

fun run :: "('p call_env \<times> string \<times> 'p) list \<Rightarrow> 'p world \<Rightarrow> 'p world" where
  "run [] w = w"
| "run ((ctx, name, payload) # cs) w = run cs (fst (trackEvent ctx name payload w))"

section \<open>The rates as the specification words them\<close>

text \<open>
  The table of section 4.2: the key of each rate, its numerator and its denominator.
  \<open>computeConversionRates\<close> builds the mapping from nothing, as a function of the
  counters alone: one entry for each row whose denominator is not zero, the percentage
  formatted as \<open>calculateConversionRates\<close> formats it.
\<close>

definition rate_table :: "(string \<times> (funnel_metrics \<Rightarrow> nat) \<times> (funnel_metrics \<Rightarrow> nat)) list" where
  "rate_table =
     [(''quizStartRate'', quiz_started, quiz_loaded),
      (''quizCompletionRate'', quiz_completed, quiz_started),
      (''salesPageViewRate'', sales_page_loaded, quiz_completed),
      (''scrollRate'', sales_page_scrolled, sales_page_loaded),
      (''checkoutClickRate'', checkout_clicked, sales_page_scrolled),
      (''overallConversionRate'', checkout_clicked, quiz_loaded)]"

fun rows :: "funnel_metrics \<Rightarrow> (string \<times> (funnel_metrics \<Rightarrow> nat) \<times> (funnel_metrics \<Rightarrow> nat)) list
    \<Rightarrow> (string \<times> string) list" where
  "rows m [] = []"
| "rows m ((k, numerator, denominator) # t) =
     (if denominator m = 0 then rows m t
      else (k, rate (numerator m) (denominator m)) # rows m t)"

definition computeConversionRates :: "funnel_metrics \<Rightarrow> (string \<rightharpoonup> string)" where
  "computeConversionRates m = map_of (rows m rate_table)"

text \<open>
  \<open>round2(100 * numerator / denominator)\<close> read in exact arithmetic: the quotient is
  not rounded to a double before it is formatted.
\<close>

definition exact_rate :: "nat \<Rightarrow> nat \<Rightarrow> string" where
  "exact_rate numerator denominator = toFixed2 (100 * of_nat numerator / of_nat denominator)"

section \<open>Sample inputs\<close>

definition sample_date :: "nat \<Rightarrow> jsdate" where
  "sample_date dd =
     \<lparr>year = 2024, month = 3, day = dd, hours = 9, minutes = 30, seconds = 0,
      milliseconds = 0\<rparr>"

definition sample_env :: "string \<Rightarrow> nat \<Rightarrow> string call_env" where
  \<comment> \<open>a call of the session \<open>sid\<close> on day \<open>dd\<close> of March 2024, no sink installed\<close>
  "sample_env sid dd =
     \<lparr>this_sessionId = sid,
      this_currentPage = ''quiz'',
      location_href = ''https://example.test/index.html'',
      document_referrer = [],
      navigator_userAgent = ''Mozilla/5.0'',
      screen_width = 1920,
      screen_height = 1080,
      now_timestamp = sample_date dd,
      now_today = sample_date dd,
      now_startTime = sample_date dd,
      now_lastActivity = sample_date dd,
      setItem_succeeds = True,
      JSON_stringify = (\<lambda>d. ''{}''),
      gtag = Undefined,
      fbq = Undefined\<rparr>"

definition sample_world :: "string world" where
  \<comment> \<open>a new instance over an empty store slot\<close>
  "sample_world =
     \<lparr>heap = (\<lambda>a. getDefaultData), fresh = 1, this_data = 0, localStorage = None\<rparr>"

definition sample_calls :: "(string call_env \<times> string \<times> string) list" where
  \<comment> \<open>session \<open>s1\<close>, then session \<open>s2\<close>, then \<open>s1\<close> again on the next day\<close>
  "sample_calls =
     [(sample_env ''s1'' 5, ''quiz_loaded'', ''{}''),
      (sample_env ''s2'' 5, ''quiz_loaded'', ''{}''),
      (sample_env ''s1'' 6, ''quiz_started'', ''{}'')]"

definition sample_parse :: "string \<Rightarrow> js_error + string ledger" where
  \<comment> \<open>a stand-in for \<open>JSON.parse\<close> that accepts the text \<open>{}\<close> only\<close>
  "sample_parse s = (if s = ''{}'' then Inr getDefaultData else Inl SyntaxError)"

definition sample_metrics :: funnel_metrics where
  "sample_metrics =
     \<lparr>quiz_loaded = 100, quiz_started = 40, quiz_completed = 10,
      sales_page_loaded = 8, sales_page_scrolled = 4, checkout_clicked = 1\<rparr>"

definition tie_metrics :: funnel_metrics where
  "tie_metrics =
     \<lparr>quiz_loaded = 160, quiz_started = 23, quiz_completed = 0,
      sales_page_loaded = 0, sales_page_scrolled = 0, checkout_clicked = 0\<rparr>"

definition with_metrics :: "funnel_metrics \<Rightarrow> 'p ledger" where
  "with_metrics m = getDefaultData\<lparr>funnelMetrics := m\<rparr>"

definition set_totalSessions :: "nat \<Rightarrow> 'p ledger \<Rightarrow> 'p ledger" where
  \<comment> \<open>the assignment \<open>snapshot.totalSessions = n\<close> made by a caller\<close>
  "set_totalSessions n d = d\<lparr>totalSessions := n\<rparr>"

section \<open>Day keys\<close>

text \<open>
  The day key is the date part of the clock reading: digits, hyphens and at most a
  leading plus sign. It is therefore never the name of a property of \<open>Object.prototype\<close>,
  and the step of \<open>trackEvent\<close> that updates \<open>dailyStats\<close> does not throw.
\<close>

lemma show_nat_digits: "set (show_nat n) \<subseteq> set ''0123456789''"
proof (induction n rule: show_nat.induct)
  case (1 n)
  have d: "digit_char k \<in> set ''0123456789''" if "k < 10" for k
  proof -
    from that have "k \<in> {0,1,2,3,4,5,6,7,8,9}" by auto
    then show ?thesis by (auto simp: digit_char_def)
  qed
  show ?case
  proof (cases "n < 10")
    case True
    then show ?thesis using d[of n] by (subst show_nat.simps) simp
  next
    case False
    then show ?thesis using 1 d[of "n mod 10"] by (subst show_nat.simps) simp
  qed
qed

lemma show_nat_nonempty: "show_nat n \<noteq> []"
  by (subst show_nat.simps) simp

lemma pad_digits: "set (pad w n) \<subseteq> set ''0123456789''"
  using show_nat_digits[of n] by (auto simp: pad_def)

lemma date_part_chars: "set (date_part d) \<subseteq> set ''0123456789+-''"
proof -
  define S where "S = set ''0123456789+-''"
  have sub: "set ''0123456789'' \<subseteq> S"
    unfolding S_def by simp
  have p: "set (pad w n) \<subseteq> S" for w n
    by (rule order_trans[OF pad_digits sub])
  have c: "CHR ''+'' \<in> S" "CHR ''-'' \<in> S"
    unfolding S_def by simp_all
  have "set (date_part d) \<subseteq> S"
    using p c by (simp add: date_part_def)
  then show ?thesis unfolding S_def .
qed

lemma today_is_date_part: "split_T_first (toISOString d) = date_part d"
proof -
  have "CHR ''T'' \<notin> set (date_part d)"
    using date_part_chars[of d] by auto
  then have "takeWhile (\<lambda>c. c \<noteq> CHR ''T'') (date_part d @ CHR ''T'' # rest) = date_part d" for rest
    by (subst takeWhile_tail) auto
  then show ?thesis
    unfolding split_T_first_def toISOString_def by simp
qed

lemma date_part_nonempty: "date_part d \<noteq> []"
  by (simp add: date_part_def)

lemma date_part_not_inherited: "date_part d \<notin> set object_prototype_keys"
proof
  assume "date_part d \<in> set object_prototype_keys"
  then have "\<not> set (date_part d) \<subseteq> set ''0123456789+-''"
    unfolding object_prototype_keys_def by auto
  then show False using date_part_chars[of d] by simp
qed

lemma update_dailyStats_today:
  "update_dailyStats (split_T_first (toISOString d)) name ds \<noteq> Inl e"
  by (simp add: update_dailyStats_def get_prop_def today_is_date_part date_part_not_inherited
      split: option.splits)

lemma document_set_document [simp]: "document (set_document d w) = d"
  by (simp add: document_def set_document_def)

lemma document_saveData [simp]: "document (saveData ctx w) = document w"
  by (simp add: document_def saveData_def)

lemma trackEvent_cases:
  obtains ds where
    "update_dailyStats (split_T_first (toISOString (now_today ctx))) name
       (dailyStats (document w)) = Inr ds"
proof (cases "update_dailyStats (split_T_first (toISOString (now_today ctx))) name
       (dailyStats (document w))")
  case (Inl e)
  then show ?thesis using update_dailyStats_today by blast
next
  case (Inr ds)
  then show ?thesis using that by blast
qed

lemma date_part_sample: "date_part (sample_date 5) = ''2024-03-05''"
  by (simp add: date_part_def pad_def sample_date_def show_nat.simps digit_char_def)

lemma today_sample: "split_T_first (toISOString (sample_date 5)) = ''2024-03-05''"
  by (simp only: today_is_date_part date_part_sample)

section \<open>Loading, resetting and reading the ledger\<close>

text \<open>
  Claim C6. Loading the ledger from a store slot whose content is missing, empty or not
  parseable (\<open>JSON.parse\<close> throws) returns the default document to the caller: the
  exception is caught inside \<open>loadData\<close>, and the result has \<open>totalSessions = 0\<close>, no
  events, the six funnel counters at zero and empty \<open>dailyStats\<close>, \<open>conversionRates\<close>
  and \<open>sessions\<close>.
\<close>

theorem loadData_recovers_default:
  assumes "stored = None \<or> stored = Some [] \<or> (\<exists>s e. stored = Some s \<and> JSON_parse s = Inl e)"
  shows "loadData JSON_parse stored = getDefaultData
    \<and> totalSessions (loadData JSON_parse stored) = 0
    \<and> events (loadData JSON_parse stored) = []
    \<and> funnelMetrics (loadData JSON_parse stored) =
        \<lparr>quiz_loaded = 0, quiz_started = 0, quiz_completed = 0,
         sales_page_loaded = 0, sales_page_scrolled = 0, checkout_clicked = 0\<rparr>
    \<and> dailyStats (loadData JSON_parse stored) = Map.empty
    \<and> conversionRates (loadData JSON_parse stored) = Map.empty
    \<and> sessions (loadData JSON_parse stored) = []"
proof -
  have "loadData JSON_parse stored = getDefaultData"
    using assms by (auto simp: loadData_def)
  then show ?thesis
    by (simp add: getDefaultData_def)
qed

theorem loadData_recovers_default_witness:
  "loadData sample_parse None = getDefaultData
   \<and> loadData sample_parse (Some ''{oops'') = getDefaultData
   \<and> totalSessions (loadData sample_parse (Some ''{oops'')) = 0
   \<and> events (loadData sample_parse (Some ''{oops'')) = []"
proof -
  have a: "(None :: string option) = None \<or> (None :: string option) = Some []
      \<or> (\<exists>s e. (None :: string option) = Some s \<and> sample_parse s = Inl e)"
    by simp
  have b: "Some ''{oops'' = None \<or> Some ''{oops'' = Some []
      \<or> (\<exists>s e. Some ''{oops'' = Some s \<and> sample_parse s = Inl e)"
    by (simp add: sample_parse_def)
  show ?thesis
    using loadData_recovers_default[OF a] loadData_recovers_default[OF b]
    by (simp add: getDefaultData_def)
qed

text \<open>
  Claim C8. \<open>resetAnalytics\<close> with the confirmation answered \<open>false\<close> changes nothing and
  returns \<open>false\<close>. Answered \<open>true\<close>, it returns \<open>true\<close>, the ledger document is the
  default document, and the store slot holds the serialised default document when the
  store accepts the write and is empty otherwise (the old content was removed first); in
  both cases the default document is what a later load reads back, provided
  \<open>JSON.parse\<close> inverts \<open>JSON.stringify\<close> on the default document.
\<close>

theorem resetAnalytics_gate:
  "resetAnalytics ctx False w = (w, False)
   \<and> snd (resetAnalytics ctx True w) = True
   \<and> document (fst (resetAnalytics ctx True w)) = getDefaultData
   \<and> localStorage (fst (resetAnalytics ctx True w)) =
       (if setItem_succeeds ctx then Some (JSON_stringify ctx getDefaultData) else None)
   \<and> (JSON_parse (JSON_stringify ctx getDefaultData) = Inr getDefaultData \<longrightarrow>
        loadData JSON_parse (localStorage (fst (resetAnalytics ctx True w))) = getDefaultData)"
  by (simp add: resetAnalytics_def saveData_def document_def loadData_def)

theorem resetAnalytics_gate_witness:
  "resetAnalytics (sample_env ''s1'' 5) False sample_world = (sample_world, False)
   \<and> snd (resetAnalytics (sample_env ''s1'' 5) True sample_world) = True
   \<and> document (fst (resetAnalytics (sample_env ''s1'' 5) True sample_world)) = getDefaultData
   \<and> localStorage (fst (resetAnalytics (sample_env ''s1'' 5) True sample_world)) = Some ''{}''
   \<and> loadData sample_parse
        (localStorage (fst (resetAnalytics (sample_env ''s1'' 5) True sample_world))) = getDefaultData"
proof -
  have s: "setItem_succeeds (sample_env ''s1'' 5)"
    and j: "JSON_stringify (sample_env ''s1'' 5) getDefaultData = ''{}''"
    by (simp_all add: sample_env_def)
  have p: "sample_parse ''{}'' = Inr getDefaultData"
    by (simp add: sample_parse_def)
  show ?thesis
    using resetAnalytics_gate[of "sample_env ''s1'' 5" sample_world sample_parse]
    by (simp add: s j p loadData_def)
qed

text \<open>
  Claim C9, as stated, fails: \<open>getAnalytics\<close> returns the reference held in
  \<open>this.data\<close>, so an assignment made by a caller through the returned value is an
  assignment to the ledger's own document. On a new instance the caller's
  \<open>snapshot.totalSessions = 99\<close> changes the ledger's \<open>totalSessions\<close> from 0 to 99.
\<close>

theorem getAnalytics_snapshot_counterexample:
  "totalSessions (document sample_world) = 0
   \<and> totalSessions (document
         (caller_mutates (getAnalytics sample_world) (set_totalSessions 99) sample_world)) = 99"
  by (simp add: sample_world_def document_def caller_mutates_def getAnalytics_def
      set_totalSessions_def getDefaultData_def)

text \<open>
  Claim C9, amended. \<open>getAnalytics\<close> returns the live ledger document itself, neither a
  copy nor an immutable view: the object at the returned reference is the current
  document, and whatever change \<open>f\<close> a caller makes through the returned reference is made
  to the ledger's own document.
\<close>

theorem getAnalytics_returns_live_document:
  "heap w (getAnalytics w) = document w
   \<and> document (caller_mutates (getAnalytics w) f w) = f (document w)"
  by (simp add: document_def caller_mutates_def getAnalytics_def)

section \<open>Recording an event\<close>

lemma calculateConversionRates_fields [simp]:
  "events (calculateConversionRates d) = events d"
  "funnelMetrics (calculateConversionRates d) = funnelMetrics d"
  "dailyStats (calculateConversionRates d) = dailyStats d"
  "sessions (calculateConversionRates d) = sessions d"
  "totalSessions (calculateConversionRates d) = totalSessions d"
  by (simp_all add: calculateConversionRates_def Let_def)

lemma updateSessionData_fields [simp]:
  "events (updateSessionData ctx ev d) = events d"
  "funnelMetrics (updateSessionData ctx ev d) = funnelMetrics d"
  "dailyStats (updateSessionData ctx ev d) = dailyStats d"
  "conversionRates (updateSessionData ctx ev d) = conversionRates d"
  by (simp_all add: updateSessionData_def Let_def split: option.splits)

lemma trackEvent_shape:
  obtains ds where
    "update_dailyStats (date_part (now_today ctx)) name (dailyStats (document w)) = Inr ds"
    "trackEvent ctx name payload w =
       (saveData ctx (set_document
          (calculateConversionRates (updateSessionData ctx (event_of ctx name payload)
             ((document w)\<lparr>events := events (document w) @ [event_of ctx name payload],
                funnelMetrics :=
                  (if hasOwnProperty_metrics name then inc_metric name (funnelMetrics (document w))
                   else funnelMetrics (document w)),
                dailyStats := ds\<rparr>))) w),
        sendToExternalAnalytics ctx (event_of ctx name payload))"
proof -
  obtain ds where ds: "update_dailyStats (split_T_first (toISOString (now_today ctx))) name
       (dailyStats (document w)) = Inr ds"
    by (rule trackEvent_cases)
  have "trackEvent ctx name payload w =
       (saveData ctx (set_document
          (calculateConversionRates (updateSessionData ctx (event_of ctx name payload)
             ((document w)\<lparr>events := events (document w) @ [event_of ctx name payload],
                funnelMetrics :=
                  (if hasOwnProperty_metrics name then inc_metric name (funnelMetrics (document w))
                   else funnelMetrics (document w)),
                dailyStats := ds\<rparr>))) w),
        sendToExternalAnalytics ctx (event_of ctx name payload))"
    using ds by (simp add: trackEvent_def Let_def)
  with ds that show ?thesis
    by (simp add: today_is_date_part)
qed

lemma trackEvent_events:
  "events (document (fst (trackEvent ctx name payload w))) =
     events (document w) @ [event_of ctx name payload]"
  by (rule trackEvent_shape[of ctx name w payload]) simp

lemma trackEvent_funnelMetrics:
  "funnelMetrics (document (fst (trackEvent ctx name payload w))) =
     (if hasOwnProperty_metrics name then inc_metric name (funnelMetrics (document w))
      else funnelMetrics (document w))"
  by (rule trackEvent_shape[of ctx name w payload]) simp

lemma trackEvent_dailyStats:
  "update_dailyStats (date_part (now_today ctx)) name (dailyStats (document w)) =
     Inr (dailyStats (document (fst (trackEvent ctx name payload w))))"
  by (rule trackEvent_shape[of ctx name w payload]) simp

lemma trackEvent_conversionRates:
  "conversionRates (document (fst (trackEvent ctx name payload w))) =
     conversionRates (calculateConversionRates
       ((document w)\<lparr>funnelMetrics := funnelMetrics (document (fst (trackEvent ctx name payload w)))\<rparr>))"
  by (rule trackEvent_shape[of ctx name w payload])
    (simp add: calculateConversionRates_def Let_def)

lemma trackEvent_sessions:
  "sessions (document (fst (trackEvent ctx name payload w))) =
     sessions (updateSessionData ctx (event_of ctx name payload) (document w))
   \<and> totalSessions (document (fst (trackEvent ctx name payload w))) =
     totalSessions (updateSessionData ctx (event_of ctx name payload) (document w))"
  by (rule trackEvent_shape[of ctx name w payload])
    (simp add: updateSessionData_def Let_def split: option.splits)

lemma trackEvent_outcome:
  "snd (trackEvent ctx name payload w) =
     (if gtag ctx = Throws \<or> fbq ctx = Throws then Inl SinkException else Inr ())"
  by (rule trackEvent_shape[of ctx name w payload])
    (simp add: sendToExternalAnalytics_def)

lemma trackEvent_localStorage:
  "localStorage (fst (trackEvent ctx name payload w)) =
     (if setItem_succeeds ctx
      then Some (JSON_stringify ctx (document (fst (trackEvent ctx name payload w))))
      else localStorage w)"
  by (rule trackEvent_shape[of ctx name w payload])
    (simp add: saveData_def set_document_def document_def)


lemma rows_table:
  "rows m rate_table =
     (if quiz_loaded m = 0 then [] else [(''quizStartRate'', rate (quiz_started m) (quiz_loaded m))])
   @ (if quiz_started m = 0 then []
      else [(''quizCompletionRate'', rate (quiz_completed m) (quiz_started m))])
   @ (if quiz_completed m = 0 then []
      else [(''salesPageViewRate'', rate (sales_page_loaded m) (quiz_completed m))])
   @ (if sales_page_loaded m = 0 then []
      else [(''scrollRate'', rate (sales_page_scrolled m) (sales_page_loaded m))])
   @ (if sales_page_scrolled m = 0 then []
      else [(''checkoutClickRate'', rate (checkout_clicked m) (sales_page_scrolled m))])
   @ (if quiz_loaded m = 0 then []
      else [(''overallConversionRate'', rate (checkout_clicked m) (quiz_loaded m))])"
  by (simp add: rate_table_def)

lemma computeConversionRates_apply:
  "computeConversionRates m k =
     (if k = ''quizStartRate'' \<and> quiz_loaded m \<noteq> 0
        then Some (rate (quiz_started m) (quiz_loaded m))
      else if k = ''quizCompletionRate'' \<and> quiz_started m \<noteq> 0
        then Some (rate (quiz_completed m) (quiz_started m))
      else if k = ''salesPageViewRate'' \<and> quiz_completed m \<noteq> 0
        then Some (rate (sales_page_loaded m) (quiz_completed m))
      else if k = ''scrollRate'' \<and> sales_page_loaded m \<noteq> 0
        then Some (rate (sales_page_scrolled m) (sales_page_loaded m))
      else if k = ''checkoutClickRate'' \<and> sales_page_scrolled m \<noteq> 0
        then Some (rate (checkout_clicked m) (sales_page_scrolled m))
      else if k = ''overallConversionRate'' \<and> quiz_loaded m \<noteq> 0
        then Some (rate (checkout_clicked m) (quiz_loaded m))
      else None)"
  unfolding computeConversionRates_def rows_table
  by (simp add: map_add_def)

lemma calculateConversionRates_apply:
  "conversionRates (calculateConversionRates d) k =
     (case computeConversionRates (funnelMetrics d) k of
        Some v \<Rightarrow> Some v
      | None \<Rightarrow> conversionRates d k)"
  by (simp add: calculateConversionRates_def Let_def computeConversionRates_apply)

lemma calculateConversionRates_eq:
  "calculateConversionRates d =
     d\<lparr>conversionRates := conversionRates d ++ computeConversionRates (funnelMetrics d)\<rparr>"
proof -
  have "conversionRates (calculateConversionRates d) =
      conversionRates d ++ computeConversionRates (funnelMetrics d)"
    by (rule ext) (simp add: calculateConversionRates_apply map_add_def)
  then show ?thesis
    by (simp add: calculateConversionRates_def Let_def)
qed

lemma calculateConversionRates_idem:
  "calculateConversionRates (calculateConversionRates d) = calculateConversionRates d"
proof -
  have "(r ++ c) ++ c = r ++ c" for r c :: "string \<rightharpoonup> string"
    by (rule ext) (simp add: map_add_def split: option.splits)
  then show ?thesis
    by (simp add: calculateConversionRates_eq)
qed

text \<open>
  Claim C7, as stated, fails: nothing in \<open>trackEvent\<close> or \<open>sendToExternalAnalytics\<close>
  catches what a sink throws. With \<open>gtag\<close> installed and throwing, the call of
  \<open>trackEvent\<close> for \<open>quiz_loaded\<close> on a new instance ends with the sink's exception.
\<close>

theorem trackEvent_throwing_sink_counterexample:
  "snd (trackEvent ((sample_env ''s1'' 5)\<lparr>gtag := Throws\<rparr>) ''quiz_loaded'' ''{}'' sample_world)
     = Inl SinkException"
  by (simp add: trackEvent_outcome)

text \<open>
  Claim C7, amended. An absent sink has no effect on \<open>trackEvent\<close>. A sink that throws
  makes \<open>trackEvent\<close> throw, but only after the local recording is complete and without
  undoing any of it: the resulting state is the one reached with no sink installed, the
  event is appended, the funnel counter and the day bucket are updated, the session is
  upserted, the rates are recomputed, and the document is in the store slot when the
  store accepts the write.
\<close>

theorem trackEvent_sinks_isolated_from_state:
  "fst (trackEvent ctx name payload w) =
     fst (trackEvent (ctx\<lparr>gtag := Undefined, fbq := Undefined\<rparr>) name payload w)
   \<and> snd (trackEvent ctx name payload w) =
     (if gtag ctx = Throws \<or> fbq ctx = Throws then Inl SinkException else Inr ())
   \<and> events (document (fst (trackEvent ctx name payload w))) =
     events (document w) @ [event_of ctx name payload]
   \<and> funnelMetrics (document (fst (trackEvent ctx name payload w))) =
     (if hasOwnProperty_metrics name then inc_metric name (funnelMetrics (document w))
      else funnelMetrics (document w))
   \<and> update_dailyStats (date_part (now_today ctx)) name (dailyStats (document w)) =
     Inr (dailyStats (document (fst (trackEvent ctx name payload w))))
   \<and> sessions (document (fst (trackEvent ctx name payload w))) =
     sessions (updateSessionData ctx (event_of ctx name payload) (document w))
   \<and> calculateConversionRates (document (fst (trackEvent ctx name payload w))) =
     document (fst (trackEvent ctx name payload w))
   \<and> (setItem_succeeds ctx \<longrightarrow>
       localStorage (fst (trackEvent ctx name payload w)) =
         Some (JSON_stringify ctx (document (fst (trackEvent ctx name payload w)))))"
proof -
  let ?ctx0 = "ctx\<lparr>gtag := Undefined, fbq := Undefined\<rparr>"
  have e: "event_of ?ctx0 name payload = event_of ctx name payload"
    by (simp add: event_of_def)
  have t: "touch_session ?ctx0 ev = touch_session ctx ev" for ev
    by (rule ext) (simp add: touch_session_def)
  have n: "new_session ?ctx0 = new_session ctx"
    by (simp add: new_session_def)
  have u: "updateSessionData ?ctx0 ev d = updateSessionData ctx ev d" for ev d
    by (simp add: updateSessionData_def t n Let_def split: option.splits)
  have s: "saveData ?ctx0 v = saveData ctx v" for v
    by (simp add: saveData_def)
  have a: "fst (trackEvent ctx name payload w) = fst (trackEvent ?ctx0 name payload w)"
  proof (rule trackEvent_shape[of ctx name w payload])
    fix ds
    assume ds: "update_dailyStats (date_part (now_today ctx)) name (dailyStats (document w)) = Inr ds"
      and t: "trackEvent ctx name payload w =
       (saveData ctx (set_document
          (calculateConversionRates (updateSessionData ctx (event_of ctx name payload)
             ((document w)\<lparr>events := events (document w) @ [event_of ctx name payload],
                funnelMetrics :=
                  (if hasOwnProperty_metrics name then inc_metric name (funnelMetrics (document w))
                   else funnelMetrics (document w)),
                dailyStats := ds\<rparr>))) w),
        sendToExternalAnalytics ctx (event_of ctx name payload))"
    show ?thesis
    proof (rule trackEvent_shape[of ?ctx0 name w payload])
      fix ds'
      assume ds': "update_dailyStats (date_part (now_today ?ctx0)) name (dailyStats (document w)) = Inr ds'"
        and t': "trackEvent ?ctx0 name payload w =
       (saveData ?ctx0 (set_document
          (calculateConversionRates (updateSessionData ?ctx0 (event_of ?ctx0 name payload)
             ((document w)\<lparr>events := events (document w) @ [event_of ?ctx0 name payload],
                funnelMetrics :=
                  (if hasOwnProperty_metrics name then inc_metric name (funnelMetrics (document w))
                   else funnelMetrics (document w)),
                dailyStats := ds'\<rparr>))) w),
        sendToExternalAnalytics ?ctx0 (event_of ?ctx0 name payload))"
      from ds ds' have "ds' = ds" by simp
      then show ?thesis
        by (simp only: t t' e u s fst_conv)
    qed
  qed
  have r: "calculateConversionRates (document (fst (trackEvent ctx name payload w))) =
     document (fst (trackEvent ctx name payload w))"
    by (rule trackEvent_shape[of ctx name w payload]) (simp add: calculateConversionRates_idem)
  show ?thesis
    apply (intro conjI impI)
           apply (rule a)
          apply (rule trackEvent_outcome)
         apply (rule trackEvent_events)
        apply (rule trackEvent_funnelMetrics)
       apply (rule trackEvent_dailyStats)
      apply (rule trackEvent_sessions[THEN conjunct1])
     apply (rule r)
    apply (simp add: trackEvent_localStorage)
    done
qed

lemma document_sample_world: "document sample_world = getDefaultData"
  by (simp add: document_def sample_world_def)

lemma run_snoc: "run (cs @ [(ctx, name, payload)]) w = fst (trackEvent ctx name payload (run cs w))"
  by (induction cs arbitrary: w) auto


lemma inc_metric_mono:
  "quiz_loaded m \<le> quiz_loaded (inc_metric k m)"
  "quiz_started m \<le> quiz_started (inc_metric k m)"
  "quiz_completed m \<le> quiz_completed (inc_metric k m)"
  "sales_page_loaded m \<le> sales_page_loaded (inc_metric k m)"
  "sales_page_scrolled m \<le> sales_page_scrolled (inc_metric k m)"
  by (simp_all add: inc_metric_def)

lemma computeConversionRates_grow:
  assumes "quiz_loaded m \<le> quiz_loaded m'" "quiz_started m \<le> quiz_started m'"
    "quiz_completed m \<le> quiz_completed m'" "sales_page_loaded m \<le> sales_page_loaded m'"
    "sales_page_scrolled m \<le> sales_page_scrolled m'"
  shows "computeConversionRates m ++ computeConversionRates m' = computeConversionRates m'"
  using assms
  by (intro ext) (auto simp: map_add_def computeConversionRates_apply split: option.splits)

lemma rates_invariant_step:
  assumes "conversionRates (document w) = computeConversionRates (funnelMetrics (document w))"
  shows "conversionRates (document (fst (trackEvent ctx name payload w))) =
    computeConversionRates (funnelMetrics (document (fst (trackEvent ctx name payload w))))"
proof -
  let ?m = "funnelMetrics (document w)"
  let ?m' = "funnelMetrics (document (fst (trackEvent ctx name payload w)))"
  have "computeConversionRates ?m ++ computeConversionRates ?m' = computeConversionRates ?m'"
    by (rule computeConversionRates_grow) (simp_all add: trackEvent_funnelMetrics inc_metric_mono)
  then show ?thesis
    using assms
    by (simp add: trackEvent_conversionRates[of ctx name payload w] calculateConversionRates_eq)
qed

lemma rates_invariant_run:
  assumes "conversionRates (document w) = computeConversionRates (funnelMetrics (document w))"
  shows "conversionRates (document (run cs w)) =
    computeConversionRates (funnelMetrics (document (run cs w)))"
  using assms
proof (induction cs arbitrary: w)
  case Nil
  then show ?case by simp
next
  case (Cons c cs)
  obtain ctx name payload where c: "c = (ctx, name, payload)"
    by (cases c) auto
  show ?case
    unfolding c run.simps
    by (rule Cons.IH) (rule rates_invariant_step[OF Cons.prems])
qed

lemma computeConversionRates_dom:
  "(''quizStartRate'' \<in> dom (computeConversionRates m)) = (quiz_loaded m > 0)"
  "(''quizCompletionRate'' \<in> dom (computeConversionRates m)) = (quiz_started m > 0)"
  "(''salesPageViewRate'' \<in> dom (computeConversionRates m)) = (quiz_completed m > 0)"
  "(''scrollRate'' \<in> dom (computeConversionRates m)) = (sales_page_loaded m > 0)"
  "(''checkoutClickRate'' \<in> dom (computeConversionRates m)) = (sales_page_scrolled m > 0)"
  "(''overallConversionRate'' \<in> dom (computeConversionRates m)) = (quiz_loaded m > 0)"
  by (simp_all add: dom_def computeConversionRates_apply)

lemma computeConversionRates_zero:
  "computeConversionRates
     \<lparr>quiz_loaded = 0, quiz_started = 0, quiz_completed = 0,
      sales_page_loaded = 0, sales_page_scrolled = 0, checkout_clicked = 0\<rparr> = Map.empty"
  by (rule ext) (simp add: computeConversionRates_apply)

text \<open>
  Claim C2. After any run of \<open>trackEvent\<close> calls that starts from the default document,
  \<open>conversionRates\<close> is the mapping computed from nothing as a function of the current
  \<open>funnelMetrics\<close> alone; each of the six keys is present exactly when its denominator
  is positive, no other key is present, and with all counters at zero the mapping is
  empty.
\<close>

theorem conversionRates_recomputed_from_scratch:
  assumes "document w = getDefaultData" and "d = document (run cs w)"
  shows "conversionRates d = computeConversionRates (funnelMetrics d)
    \<and> (''quizStartRate'' \<in> dom (conversionRates d)) = (quiz_loaded (funnelMetrics d) > 0)
    \<and> (''quizCompletionRate'' \<in> dom (conversionRates d)) = (quiz_started (funnelMetrics d) > 0)
    \<and> (''salesPageViewRate'' \<in> dom (conversionRates d)) = (quiz_completed (funnelMetrics d) > 0)
    \<and> (''scrollRate'' \<in> dom (conversionRates d)) = (sales_page_loaded (funnelMetrics d) > 0)
    \<and> (''checkoutClickRate'' \<in> dom (conversionRates d))
        = (sales_page_scrolled (funnelMetrics d) > 0)
    \<and> (''overallConversionRate'' \<in> dom (conversionRates d)) = (quiz_loaded (funnelMetrics d) > 0)
    \<and> dom (conversionRates d) \<subseteq> set (map fst rate_table)
    \<and> (funnelMetrics d =
          \<lparr>quiz_loaded = 0, quiz_started = 0, quiz_completed = 0,
           sales_page_loaded = 0, sales_page_scrolled = 0, checkout_clicked = 0\<rparr>
        \<longrightarrow> conversionRates d = Map.empty)"
proof -
  have "conversionRates (document w) = computeConversionRates (funnelMetrics (document w))"
    using assms(1) computeConversionRates_zero by (simp add: getDefaultData_def)
  then have eq: "conversionRates d = computeConversionRates (funnelMetrics d)"
    unfolding assms(2) by (rule rates_invariant_run)
  have sub: "dom (computeConversionRates m) \<subseteq> set (map fst rate_table)" for m
    by (auto simp: computeConversionRates_apply rate_table_def split: if_splits)
  show ?thesis
    unfolding eq
    using computeConversionRates_zero sub
    by (simp add: computeConversionRates_dom)
qed


lemma get_prop_Own: "get_prop obj k = Own v \<longleftrightarrow> obj k = Some v"
  by (simp add: get_prop_def split: option.splits)

lemma update_dailyStats_aux_fields:
  assumes "update_dailyStats today name ds = Inr ds'"
    and "\<And>k b. ds k = Some b \<Longrightarrow> b_sessions b = 0 \<and> b_conversions b = Map.empty"
    and "ds' k = Some b"
  shows "b_sessions b = 0 \<and> b_conversions b = Map.empty"
  using assms
  by (auto simp: update_dailyStats_def get_prop_Own split: lookup.splits if_splits)

lemma aux_fields_run:
  assumes "\<And>k b. dailyStats (document w) k = Some b \<Longrightarrow>
      b_sessions b = 0 \<and> b_conversions b = Map.empty"
    and "dailyStats (document (run cs w)) k = Some b"
  shows "b_sessions b = 0 \<and> b_conversions b = Map.empty"
  using assms
proof (induction cs arbitrary: w)
  case Nil
  then show ?case by simp
next
  case (Cons c cs)
  obtain ctx name payload where c: "c = (ctx, name, payload)"
    by (cases c) auto
  show ?case
  proof (rule Cons.IH)
    show "dailyStats (document (run cs (fst (trackEvent ctx name payload w)))) k = Some b"
      using Cons.prems(2) by (simp add: c)
    show "b_sessions b' = 0 \<and> b_conversions b' = Map.empty"
      if "dailyStats (document (fst (trackEvent ctx name payload w))) k' = Some b'" for k' b'
      using update_dailyStats_aux_fields[OF trackEvent_dailyStats Cons.prems(1) that] .
  qed
qed

text \<open>
  Claim C10. In every state reached from the default document by calls of \<open>trackEvent\<close>,
  every day bucket of \<open>dailyStats\<close> has \<open>sessions = 0\<close> and an empty \<open>conversions\<close>.
\<close>

theorem day_bucket_auxiliary_fields_never_updated:
  assumes "document w = getDefaultData"
    and "dailyStats (document (run cs w)) k = Some b"
  shows "b_sessions b = 0 \<and> b_conversions b = Map.empty"
proof (rule aux_fields_run[OF _ assms(2)])
  show "b_sessions b' = 0 \<and> b_conversions b' = Map.empty"
    if "dailyStats (document w) k' = Some b'" for k' b'
    using that assms(1) by (simp add: getDefaultData_def)
qed

section \<open>Sessions\<close>

lemma find_update_first:
  assumes "\<And>x. P x \<Longrightarrow> P (f x)"
  shows "find P (update_first P f xs) = map_option f (find P xs)"
  using assms by (induction xs) auto

lemma map_s_id_update_first:
  assumes "\<And>s. s_id (f s) = s_id s"
  shows "map s_id (update_first P f xs) = map s_id xs"
  using assms by (induction xs) auto

lemma update_first_distinct:
  assumes "distinct (map s_id xs)"
  shows "update_first (\<lambda>s. s_id s = sid) f xs = map (\<lambda>s. if s_id s = sid then f s else s) xs"
  using assms
proof (induction xs)
  case Nil
  then show ?case by simp
next
  case (Cons x xs)
  show ?case
  proof (cases "s_id x = sid")
    case True
    have "\<forall>s\<in>set xs. s_id s \<noteq> sid"
    proof
      fix s assume "s \<in> set xs"
      then have "s_id s \<in> set (map s_id xs)" by simp
      moreover from Cons.prems True have "sid \<notin> set (map s_id xs)" by auto
      ultimately show "s_id s \<noteq> sid" by metis
    qed
    then have "map (\<lambda>s. if s_id s = sid then f s else s) xs = xs"
      by (induction xs) auto
    with True show ?thesis by simp
  next
    case False
    with Cons show ?thesis by simp
  qed
qed

lemma find_snoc: "find P (xs @ [y]) = (case find P xs of None \<Rightarrow> find P [y] | Some x \<Rightarrow> Some x)"
  by (induction xs) auto

lemma find_session_None: "find (\<lambda>s. s_id s = sid) xs = None \<longleftrightarrow> sid \<notin> set (map s_id xs)"
  by (auto simp: find_None_iff)

lemma s_id_touch_session [simp]: "s_id (touch_session ctx ev s) = s_id s"
  by (simp add: touch_session_def)

lemma updateSessionData_sessions:
  "sessions (updateSessionData ctx ev d) =
     update_first (\<lambda>s. s_id s = this_sessionId ctx) (touch_session ctx ev)
       (if this_sessionId ctx \<in> set (map s_id (sessions d)) then sessions d
        else sessions d @ [new_session ctx])"
  "totalSessions (updateSessionData ctx ev d) =
     (if this_sessionId ctx \<in> set (map s_id (sessions d)) then totalSessions d
      else totalSessions d + 1)"
proof -
  show "sessions (updateSessionData ctx ev d) =
     update_first (\<lambda>s. s_id s = this_sessionId ctx) (touch_session ctx ev)
       (if this_sessionId ctx \<in> set (map s_id (sessions d)) then sessions d
        else sessions d @ [new_session ctx])"
    using find_session_None[of "this_sessionId ctx" "sessions d"]
    by (cases "find (\<lambda>s. s_id s = this_sessionId ctx) (sessions d)")
      (simp_all add: updateSessionData_def Let_def)
  show "totalSessions (updateSessionData ctx ev d) =
     (if this_sessionId ctx \<in> set (map s_id (sessions d)) then totalSessions d
      else totalSessions d + 1)"
    using find_session_None[of "this_sessionId ctx" "sessions d"]
    by (cases "find (\<lambda>s. s_id s = this_sessionId ctx) (sessions d)")
      (simp_all add: updateSessionData_def Let_def)
qed

lemma find_updateSessionData:
  "find (\<lambda>s. s_id s = this_sessionId ctx) (sessions (updateSessionData ctx ev d)) =
     Some (touch_session ctx ev
       (case find (\<lambda>s. s_id s = this_sessionId ctx) (sessions d) of
          Some s \<Rightarrow> s
        | None \<Rightarrow> new_session ctx))"
proof (cases "find (\<lambda>s. s_id s = this_sessionId ctx) (sessions d)")
  case None
  then have "find (\<lambda>s. s_id s = this_sessionId ctx) (sessions d @ [new_session ctx]) =
      Some (new_session ctx)"
    by (simp add: find_snoc new_session_def)
  with None show ?thesis
    by (simp add: updateSessionData_def Let_def find_update_first)
next
  case (Some s)
  then show ?thesis
    by (simp add: updateSessionData_def Let_def find_update_first)
qed

lemma sessions_history:
  assumes "document w = getDefaultData"
  shows "distinct (map s_id (sessions (document (run cs w))))
    \<and> set (map s_id (sessions (document (run cs w)))) = set (map (\<lambda>c. this_sessionId (fst c)) cs)
    \<and> totalSessions (document (run cs w)) = length (sessions (document (run cs w)))
    \<and> (\<forall>s\<in>set (sessions (document (run cs w))).
          s_events s = map (\<lambda>c. fst (snd c)) (filter (\<lambda>c. this_sessionId (fst c) = s_id s) cs))"
proof (induction cs rule: rev_induct)
  case Nil
  show ?case using assms by (simp add: getDefaultData_def)
next
  case (snoc c cs)
  obtain ctx name payload where c: "c = (ctx, name, payload)"
    by (cases c) auto
  let ?d = "document (run cs w)"
  let ?sid = "this_sessionId ctx"
  let ?ev = "event_of ctx name payload"
  let ?base = "if ?sid \<in> set (map s_id (sessions ?d)) then sessions ?d
               else sessions ?d @ [new_session ctx]"
  from snoc have dist: "distinct (map s_id (sessions ?d))"
    and ids: "set (map s_id (sessions ?d)) = set (map (\<lambda>c. this_sessionId (fst c)) cs)"
    and tot: "totalSessions ?d = length (sessions ?d)"
    and evs: "\<And>s. s \<in> set (sessions ?d) \<Longrightarrow>
        s_events s = map (\<lambda>c. fst (snd c)) (filter (\<lambda>c. this_sessionId (fst c) = s_id s) cs)"
    by auto
  have dbase: "distinct (map s_id ?base)"
    using dist by (simp add: new_session_def)
  have S: "sessions (document (run (cs @ [c]) w)) =
      map (\<lambda>s. if s_id s = ?sid then touch_session ctx ?ev s else s) ?base"
    unfolding c run_snoc
    using trackEvent_sessions[of ctx name payload "run cs w"]
    by (simp only: updateSessionData_sessions update_first_distinct[OF dbase])
  have T: "totalSessions (document (run (cs @ [c]) w)) =
      (if ?sid \<in> set (map s_id (sessions ?d)) then totalSessions ?d else totalSessions ?d + 1)"
    unfolding c run_snoc
    using trackEvent_sessions[of ctx name payload "run cs w"]
    by (simp only: updateSessionData_sessions)
  have idmap: "map s_id (map (\<lambda>s. if s_id s = ?sid then touch_session ctx ?ev s else s) ?base)
      = map s_id ?base"
    by (simp add: comp_def if_distrib[of s_id] cong: if_cong)
  have 1: "distinct (map s_id (sessions (document (run (cs @ [c]) w))))"
    unfolding S idmap by (rule dbase)
  have 2: "set (map s_id (sessions (document (run (cs @ [c]) w)))) =
      set (map (\<lambda>c. this_sessionId (fst c)) (cs @ [c]))"
    unfolding S idmap using ids by (auto simp: c new_session_def)
  have 3: "totalSessions (document (run (cs @ [c]) w)) =
      length (sessions (document (run (cs @ [c]) w)))"
    unfolding S T using tot by simp
  have 4: "s_events s' = map (\<lambda>c. fst (snd c))
        (filter (\<lambda>c. this_sessionId (fst c) = s_id s') (cs @ [c]))"
    if "s' \<in> set (sessions (document (run (cs @ [c]) w)))" for s'
  proof -
    from that obtain s where s: "s \<in> set ?base"
      and s': "s' = (if s_id s = ?sid then touch_session ctx ?ev s else s)"
      unfolding S by auto
    show ?thesis
    proof (cases "s \<in> set (sessions ?d)")
      case True
      then show ?thesis
        using evs[OF True] by (auto simp: s' c touch_session_def event_of_def)
    next
      case False
      with s have new: "s = new_session ctx" and fresh: "?sid \<notin> set (map s_id (sessions ?d))"
        by (auto split: if_splits)
      from fresh ids have "?sid \<notin> (\<lambda>c. this_sessionId (fst c)) ` set cs"
        by simp
      then have "\<forall>c\<in>set cs. this_sessionId (fst c) \<noteq> ?sid"
      proof (intro ballI)
        fix c' assume "c' \<in> set cs"
        then have "this_sessionId (fst c') \<in> (\<lambda>c. this_sessionId (fst c)) ` set cs"
          by (rule imageI)
        moreover assume "?sid \<notin> (\<lambda>c. this_sessionId (fst c)) ` set cs"
        ultimately show "this_sessionId (fst c') \<noteq> ?sid" by metis
      qed
      then have "filter (\<lambda>c. this_sessionId (fst c) = ?sid) cs = []"
        by (simp add: filter_empty_conv)
      then show ?thesis
        by (simp add: s' new c touch_session_def event_of_def new_session_def)
    qed
  qed
  from 1 2 3 4 show ?case by blast
qed

text \<open>
  Claim C5. In every state reached from the default document by calls of \<open>trackEvent\<close>,
  the ids of \<open>sessions\<close> are pairwise distinct, they are exactly the session ids of
  the calls made, \<open>totalSessions\<close> is the length of \<open>sessions\<close> and the number of
  distinct session ids seen, and the event sequence of each session is the sequence of
  event names recorded under its id, in order. (Events of \<open>s1\<close>, \<open>s2\<close>, \<open>s1\<close> give
  \<open>totalSessions = 2\<close>, two sessions, and two events for \<open>s1\<close>: the witness below.)
\<close>

theorem totalSessions_counts_distinct_sessions:
  assumes "document w = getDefaultData" and "d = document (run cs w)"
  shows "distinct (map s_id (sessions d))
    \<and> set (map s_id (sessions d)) = set (map (\<lambda>c. this_sessionId (fst c)) cs)
    \<and> totalSessions d = length (sessions d)
    \<and> totalSessions d = card (set (map (\<lambda>c. this_sessionId (fst c)) cs))
    \<and> (\<forall>s\<in>set (sessions d).
          s_events s = map (\<lambda>c. fst (snd c)) (filter (\<lambda>c. this_sessionId (fst c) = s_id s) cs))"
proof -
  note h = sessions_history[OF assms(1), of cs, folded assms(2)]
  from h have "card (set (map s_id (sessions d))) = length (map s_id (sessions d))"
    by (intro distinct_card) simp
  with h have "totalSessions d = card (set (map (\<lambda>c. this_sessionId (fst c)) cs))"
    by simp
  with h show ?thesis by blast
qed

lemma sample_sessions:
  "sessions (document (run sample_calls sample_world)) =
     [\<lparr>s_id = ''s1'', s_startTime = toISOString (sample_date 5),
       s_events = [''quiz_loaded'', ''quiz_started''],
       s_funnel = [''quiz_loaded'' \<mapsto> True, ''quiz_started'' \<mapsto> True],
       s_lastActivity = Some (toISOString (sample_date 6))\<rparr>,
      \<lparr>s_id = ''s2'', s_startTime = toISOString (sample_date 5),
       s_events = [''quiz_loaded''],
       s_funnel = [''quiz_loaded'' \<mapsto> True],
       s_lastActivity = Some (toISOString (sample_date 5))\<rparr>]"
  by (simp add: sample_calls_def trackEvent_sessions updateSessionData_sessions
      document_sample_world getDefaultData_def sample_env_def touch_session_def
      new_session_def event_of_def set_prop_def)

text \<open>
  Claim C5 at the run \<open>s1\<close>, \<open>s2\<close>, \<open>s1\<close>: two sessions are counted and kept, and
  the event sequence of \<open>s1\<close> has length two.
\<close>

theorem totalSessions_counts_distinct_sessions_witness:
  "totalSessions (document (run sample_calls sample_world)) = 2
   \<and> map s_id (sessions (document (run sample_calls sample_world))) = [''s1'', ''s2'']
   \<and> map s_events (sessions (document (run sample_calls sample_world))) =
       [[''quiz_loaded'', ''quiz_started''], [''quiz_loaded'']]"
  using totalSessions_counts_distinct_sessions[OF document_sample_world refl, of sample_calls]
  by (simp add: sample_sessions)


lemma get_metric_inc_metric:
  assumes "hasOwnProperty_metrics name"
  shows "get_metric name (inc_metric name m) = get_metric name m + 1"
  using assms by (auto simp: hasOwnProperty_metrics_def get_metric_def inc_metric_def)

lemma trackEvent_find_session:
  "find (\<lambda>s. s_id s = this_sessionId ctx) (sessions (document (fst (trackEvent ctx name payload w)))) =
     Some (touch_session ctx (event_of ctx name payload)
       (case find (\<lambda>s. s_id s = this_sessionId ctx) (sessions (document w)) of
          Some s \<Rightarrow> s
        | None \<Rightarrow> new_session ctx))"
  using trackEvent_sessions[of ctx name payload w]
  by (simp add: find_updateSessionData)

text \<open>
  Claim C4. Recording the same canonical event name twice for one session adds two to
  \<open>funnelMetrics[name]\<close> and two to the length of \<open>events\<close>; the session's \<open>funnel\<close>
  object holds the key \<open>name\<close> after the first call and has the same content after
  the second, while the session's event sequence grows by \<open>name\<close>. A \<open>funnel\<close> object
  has one entry for each of its keys, and recording a name it already holds, at any
  time, leaves it as it was.
\<close>

theorem funnel_flag_idempotent:
  assumes "hasOwnProperty_metrics name"
    and "this_sessionId ctx2 = this_sessionId ctx1"
    and "w1 = fst (trackEvent ctx1 name payload1 w)"
    and "w2 = fst (trackEvent ctx2 name payload2 w1)"
  shows "get_metric name (funnelMetrics (document w2)) =
      get_metric name (funnelMetrics (document w)) + 2
    \<and> length (events (document w2)) = length (events (document w)) + 2
    \<and> (\<exists>s1 s2.
          find (\<lambda>s. s_id s = this_sessionId ctx1) (sessions (document w1)) = Some s1
        \<and> find (\<lambda>s. s_id s = this_sessionId ctx1) (sessions (document w2)) = Some s2
        \<and> s_funnel s1 name = Some True
        \<and> s_funnel s2 = s_funnel s1
        \<and> s_events s2 = s_events s1 @ [name]
        \<and> (\<forall>s0. find (\<lambda>s. s_id s = this_sessionId ctx1) (sessions (document w)) = Some s0
               \<longrightarrow> s_funnel s0 name = Some True \<longrightarrow> s_funnel s1 = s_funnel s0))"
proof -
  have m: "get_metric name (funnelMetrics (document w2)) =
      get_metric name (funnelMetrics (document w)) + 2"
    using assms(1) by (simp add: assms(3,4) trackEvent_funnelMetrics get_metric_inc_metric)
  have e: "length (events (document w2)) = length (events (document w)) + 2"
    by (simp add: assms(3,4) trackEvent_events)
  have np: "name \<noteq> ''__proto__''"
    using assms(1) by (auto simp: hasOwnProperty_metrics_def)
  define s0 where "s0 = (case find (\<lambda>s. s_id s = this_sessionId ctx1) (sessions (document w)) of
          Some s \<Rightarrow> s | None \<Rightarrow> new_session ctx1)"
  define s1 where "s1 = touch_session ctx1 (event_of ctx1 name payload1) s0"
  define s2 where "s2 = touch_session ctx2 (event_of ctx2 name payload2) s1"
  have f1: "find (\<lambda>s. s_id s = this_sessionId ctx1) (sessions (document w1)) = Some s1"
    unfolding assms(3) s1_def s0_def by (rule trackEvent_find_session)
  have f2: "find (\<lambda>s. s_id s = this_sessionId ctx1) (sessions (document w2)) = Some s2"
    unfolding assms(4) s2_def
    using trackEvent_find_session[of ctx2 name payload2 w1] f1
    by (simp add: assms(2))
  have a: "s_funnel s1 name = Some True"
    using np by (simp add: s1_def touch_session_def event_of_def set_prop_def)
  have b: "s_funnel s2 = s_funnel s1"
    using np by (simp add: s2_def s1_def touch_session_def event_of_def set_prop_def)
  have c: "s_events s2 = s_events s1 @ [name]"
    by (simp add: s2_def touch_session_def event_of_def)
  have d: "s_funnel s1 = s_funnel s'"
    if "find (\<lambda>s. s_id s = this_sessionId ctx1) (sessions (document w)) = Some s'"
      and "s_funnel s' name = Some True" for s'
  proof -
    from that(1) have "s0 = s'" by (simp add: s0_def)
    then have "s_funnel s1 = (s_funnel s')(name \<mapsto> True)"
      using np by (simp add: s1_def touch_session_def event_of_def set_prop_def)
    also have "\<dots> = s_funnel s'"
      using that(2) by (rule map_upd_triv)
    finally show ?thesis .
  qed
  from m e f1 f2 a b c d show ?thesis by blast
qed

text \<open>
  Claim C4 at \<open>quiz_loaded\<close> recorded twice by session \<open>s1\<close> on a new instance: the
  counter is 2, two events are logged, and the session's \<open>funnel\<close> has the single key
  \<open>quiz_loaded\<close>.
\<close>

theorem funnel_flag_idempotent_witness:
  "get_metric ''quiz_loaded'' (funnelMetrics (document
      (fst (trackEvent (sample_env ''s1'' 5) ''quiz_loaded'' ''{}''
        (fst (trackEvent (sample_env ''s1'' 5) ''quiz_loaded'' ''{}'' sample_world)))))) = 2
   \<and> length (events (document
      (fst (trackEvent (sample_env ''s1'' 5) ''quiz_loaded'' ''{}''
        (fst (trackEvent (sample_env ''s1'' 5) ''quiz_loaded'' ''{}'' sample_world)))))) = 2
   \<and> map s_events (sessions (document
      (fst (trackEvent (sample_env ''s1'' 5) ''quiz_loaded'' ''{}''
        (fst (trackEvent (sample_env ''s1'' 5) ''quiz_loaded'' ''{}'' sample_world))))))
       = [[''quiz_loaded'', ''quiz_loaded'']]
   \<and> map s_funnel (sessions (document
      (fst (trackEvent (sample_env ''s1'' 5) ''quiz_loaded'' ''{}''
        (fst (trackEvent (sample_env ''s1'' 5) ''quiz_loaded'' ''{}'' sample_world))))))
       = [[''quiz_loaded'' \<mapsto> True]]"
proof -
  have h: "hasOwnProperty_metrics ''quiz_loaded''"
    by (simp add: hasOwnProperty_metrics_def)
  have g: "get_metric ''quiz_loaded'' (funnelMetrics (document sample_world)) = 0"
    by (simp add: document_sample_world getDefaultData_def get_metric_def)
  have l: "events (document sample_world) = []"
    by (simp add: document_sample_world getDefaultData_def)
  define w1 where "w1 = fst (trackEvent (sample_env ''s1'' 5) ''quiz_loaded'' ''{}'' sample_world)"
  define w2 where "w2 = fst (trackEvent (sample_env ''s1'' 5) ''quiz_loaded'' ''{}'' w1)"
  note th = funnel_flag_idempotent[OF h refl w1_def w2_def]
  have m: "get_metric ''quiz_loaded'' (funnelMetrics (document w2)) = 2"
    using th g by simp
  have e: "length (events (document w2)) = 2"
    using th l by simp
  have s: "sessions (document w2) =
      [\<lparr>s_id = ''s1'', s_startTime = toISOString (sample_date 5),
        s_events = [''quiz_loaded'', ''quiz_loaded''],
        s_funnel = [''quiz_loaded'' \<mapsto> True],
        s_lastActivity = Some (toISOString (sample_date 5))\<rparr>]"
    by (simp add: w1_def w2_def trackEvent_sessions updateSessionData_sessions
      document_sample_world getDefaultData_def sample_env_def touch_session_def
      new_session_def event_of_def set_prop_def)
  from m e s show ?thesis
    unfolding w2_def w1_def by simp
qed


lemma bump_counter_ordinary:
  assumes "name \<notin> set object_prototype_keys"
    and "evs name = None \<or> (\<exists>n. evs name = Some (Num n))"
  shows "bump_counter name evs =
    evs(name \<mapsto> Num (case evs name of Some (Num n) \<Rightarrow> n + 1 | _ \<Rightarrow> 1))"
proof -
  have np: "name \<noteq> ''__proto__''"
    using assms(1) by (auto simp: object_prototype_keys_def)
  from assms(2) show ?thesis
  proof
    assume "evs name = None"
    then show ?thesis
      using assms(1) np by (simp add: bump_counter_def get_prop_def set_prop_def)
  next
    assume "\<exists>n. evs name = Some (Num n)"
    then obtain n where "evs name = Some (Num n)" by blast
    then show ?thesis
      using np by (cases "n = 0") (simp_all add: bump_counter_def get_prop_def set_prop_def)
  qed
qed

text \<open>
  Claim C3 against the code at the event name \<open>constructor\<close> on a new instance: reading
  \<open>events['constructor']\<close> from the fresh bucket finds the function inherited from
  \<open>Object.prototype\<close>, which is truthy, so the counter is not created at 0, and \<open>++\<close>
  stores \<open>NaN\<close>. The claim gives 1 for the counter, as the code gives for
  \<open>quiz_loaded\<close>.
\<close>

theorem inherited_name_counter_is_NaN:
  "dailyStats (document (fst (trackEvent (sample_env ''s1'' 5) ''constructor'' ''{}''
       sample_world))) ''2024-03-05'' =
     Some \<lparr>b_sessions = 0, b_events = [''constructor'' \<mapsto> NaN], b_conversions = Map.empty\<rparr>
   \<and> dailyStats (document (fst (trackEvent (sample_env ''s1'' 5) ''quiz_loaded'' ''{}''
       sample_world))) ''2024-03-05'' =
     Some \<lparr>b_sessions = 0, b_events = [''quiz_loaded'' \<mapsto> Num 1], b_conversions = Map.empty\<rparr>"
proof -
  have t: "date_part (now_today (sample_env ''s1'' 5)) = ''2024-03-05''"
    by (simp add: sample_env_def date_part_sample)
  have k: "''2024-03-05'' \<notin> set object_prototype_keys"
    by (simp add: object_prototype_keys_def)
  have c: "bump_counter ''constructor'' Map.empty = [''constructor'' \<mapsto> NaN]"
    by (simp add: bump_counter_def get_prop_def set_prop_def object_prototype_keys_def)
  have q: "bump_counter ''quiz_loaded'' Map.empty = [''quiz_loaded'' \<mapsto> Num 1]"
    by (simp add: bump_counter_def get_prop_def set_prop_def object_prototype_keys_def)
  have u: "update_dailyStats ''2024-03-05'' name Map.empty =
      Inr [''2024-03-05'' \<mapsto>
        \<lparr>b_sessions = 0, b_events = bump_counter name Map.empty, b_conversions = Map.empty\<rparr>]"
    for name
    using k by (simp add: update_dailyStats_def get_prop_def)
  have d1: "dailyStats (document (fst (trackEvent (sample_env ''s1'' 5) ''constructor'' ''{}''
       sample_world))) =
      [''2024-03-05'' \<mapsto>
        \<lparr>b_sessions = 0, b_events = [''constructor'' \<mapsto> NaN], b_conversions = Map.empty\<rparr>]"
    using trackEvent_dailyStats[of "sample_env ''s1'' 5" "''constructor''" sample_world "''{}''"]
    by (simp add: t u c document_sample_world getDefaultData_def)
  have d2: "dailyStats (document (fst (trackEvent (sample_env ''s1'' 5) ''quiz_loaded'' ''{}''
       sample_world))) =
      [''2024-03-05'' \<mapsto>
        \<lparr>b_sessions = 0, b_events = [''quiz_loaded'' \<mapsto> Num 1], b_conversions = Map.empty\<rparr>]"
    using trackEvent_dailyStats[of "sample_env ''s1'' 5" "''quiz_loaded''" sample_world "''{}''"]
    by (simp add: t u q document_sample_world getDefaultData_def)
  show ?thesis
    by (simp add: d1 d2)
qed

section \<open>The invariants at sample runs\<close>

lemma sample_bucket:
  "dailyStats (document (fst (trackEvent (sample_env ''s1'' 5) ''quiz_loaded'' ''{}''
       sample_world))) =
      [''2024-03-05'' \<mapsto>
        \<lparr>b_sessions = 0, b_events = [''quiz_loaded'' \<mapsto> Num 1], b_conversions = Map.empty\<rparr>]"
proof -
  have t: "date_part (now_today (sample_env ''s1'' 5)) = ''2024-03-05''"
    by (simp add: sample_env_def date_part_sample)
  have k: "''2024-03-05'' \<notin> set object_prototype_keys"
    by (simp add: object_prototype_keys_def)
  have q: "bump_counter ''quiz_loaded'' Map.empty = [''quiz_loaded'' \<mapsto> Num 1]"
    by (simp add: bump_counter_def get_prop_def set_prop_def object_prototype_keys_def)
  have u: "update_dailyStats ''2024-03-05'' name Map.empty =
      Inr [''2024-03-05'' \<mapsto>
        \<lparr>b_sessions = 0, b_events = bump_counter name Map.empty, b_conversions = Map.empty\<rparr>]"
    for name
    using k by (simp add: update_dailyStats_def get_prop_def)
  show ?thesis
    using trackEvent_dailyStats[of "sample_env ''s1'' 5" "''quiz_loaded''" sample_world "''{}''"]
    by (simp add: t u q document_sample_world getDefaultData_def)
qed

text \<open>Claim C10 at the bucket of 5 March 2024 after one recorded event.\<close>

theorem day_bucket_auxiliary_fields_never_updated_witness:
  "dailyStats (document (run [(sample_env ''s1'' 5, ''quiz_loaded'', ''{}'')] sample_world))
     ''2024-03-05'' =
     Some \<lparr>b_sessions = 0, b_events = [''quiz_loaded'' \<mapsto> Num 1], b_conversions = Map.empty\<rparr>
   \<and> b_sessions \<lparr>b_sessions = 0, b_events = [''quiz_loaded'' \<mapsto> Num 1],
        b_conversions = Map.empty\<rparr> = 0
   \<and> b_conversions \<lparr>b_sessions = 0, b_events = [''quiz_loaded'' \<mapsto> Num 1],
        b_conversions = Map.empty\<rparr> = Map.empty"
proof -
  have b: "dailyStats (document (run [(sample_env ''s1'' 5, ''quiz_loaded'', ''{}'')] sample_world))
     ''2024-03-05'' =
     Some \<lparr>b_sessions = 0, b_events = [''quiz_loaded'' \<mapsto> Num 1], b_conversions = Map.empty\<rparr>"
    by (simp add: sample_bucket)
  from day_bucket_auxiliary_fields_never_updated[OF document_sample_world b] b
  show ?thesis by blast
qed

lemma rate_1_2: "rate 1 2 = ''50.00''"
proof -
  have a: "nat \<lfloor>js_mul (js_div (of_nat 1) (of_nat 2)) 100 * 100 + 1 / 2\<rfloor> = 5000"
    by code_simp
  have b: "fixed2 5000 = ''50.00''"
    by (simp add: fixed2_def show_nat.simps digit_char_def)
  show ?thesis
    by (simp only: rate_def toFixed2_def a b)
qed

lemma rate_Suc0_2: "rate (Suc 0) 2 = ''50.00''"
  using rate_1_2 by simp

lemma sample_funnelMetrics:
  "funnelMetrics (document (run sample_calls sample_world)) =
     \<lparr>quiz_loaded = 2, quiz_started = 1, quiz_completed = 0,
      sales_page_loaded = 0, sales_page_scrolled = 0, checkout_clicked = 0\<rparr>"
  by (simp add: sample_calls_def trackEvent_funnelMetrics document_sample_world
      getDefaultData_def hasOwnProperty_metrics_def inc_metric_def)

text \<open>
  Claim C2 after the three sample calls (two \<open>quiz_loaded\<close>, one \<open>quiz_started\<close>), and
  after no call at all.
\<close>

theorem conversionRates_recomputed_from_scratch_witness:
  "conversionRates (document (run sample_calls sample_world)) ''quizStartRate'' = Some ''50.00''
   \<and> ''quizCompletionRate'' \<in> dom (conversionRates (document (run sample_calls sample_world)))
   \<and> ''scrollRate'' \<notin> dom (conversionRates (document (run sample_calls sample_world)))
   \<and> conversionRates (document (run [] sample_world)) = Map.empty"
proof -
  note a = conversionRates_recomputed_from_scratch[OF document_sample_world refl, of sample_calls]
  note b = conversionRates_recomputed_from_scratch[OF document_sample_world refl, of "[]"]
  have z: "funnelMetrics (document (run [] sample_world)) =
      \<lparr>quiz_loaded = 0, quiz_started = 0, quiz_completed = 0,
       sales_page_loaded = 0, sales_page_scrolled = 0, checkout_clicked = 0\<rparr>"
    by (simp add: document_sample_world getDefaultData_def)
  have 1: "conversionRates (document (run sample_calls sample_world)) ''quizStartRate'' = Some ''50.00''"
    using a[THEN conjunct1] by (simp add: sample_funnelMetrics computeConversionRates_apply rate_Suc0_2)
  have 2: "''quizCompletionRate'' \<in> dom (conversionRates (document (run sample_calls sample_world)))"
    using a[THEN conjunct2, THEN conjunct2, THEN conjunct1] by (simp add: sample_funnelMetrics)
  have 3: "''scrollRate'' \<notin> dom (conversionRates (document (run sample_calls sample_world)))"
    using a[THEN conjunct2, THEN conjunct2, THEN conjunct2, THEN conjunct2, THEN conjunct1]
    by (simp add: sample_funnelMetrics)
  have 4: "conversionRates (document (run [] sample_world)) = Map.empty"
    using b z by blast
  from 1 2 3 4 show ?thesis by blast
qed

text \<open>Claim C7, amended, at a call whose second sink, \<open>fbq\<close>, throws.\<close>

theorem trackEvent_sinks_isolated_from_state_witness:
  "snd (trackEvent ((sample_env ''s1'' 5)\<lparr>fbq := Throws\<rparr>) ''quiz_loaded'' ''{}'' sample_world)
     = Inl SinkException
   \<and> fst (trackEvent ((sample_env ''s1'' 5)\<lparr>fbq := Throws\<rparr>) ''quiz_loaded'' ''{}'' sample_world)
     = fst (trackEvent (sample_env ''s1'' 5) ''quiz_loaded'' ''{}'' sample_world)
   \<and> map event (events (document
       (fst (trackEvent ((sample_env ''s1'' 5)\<lparr>fbq := Throws\<rparr>) ''quiz_loaded'' ''{}'' sample_world))))
     = [''quiz_loaded'']
   \<and> localStorage
       (fst (trackEvent ((sample_env ''s1'' 5)\<lparr>fbq := Throws\<rparr>) ''quiz_loaded'' ''{}'' sample_world))
     = Some ''{}''"
proof -
  let ?ctx = "(sample_env ''s1'' 5)\<lparr>fbq := Throws\<rparr>"
  note th = trackEvent_sinks_isolated_from_state[of ?ctx "''quiz_loaded''" "''{}''" sample_world]
  have c0: "?ctx\<lparr>gtag := Undefined, fbq := Undefined\<rparr> = sample_env ''s1'' 5"
    by (simp add: sample_env_def)
  have f: "fbq ?ctx = Throws" "setItem_succeeds ?ctx" "JSON_stringify ?ctx d = ''{}''" for d
    by (simp_all add: sample_env_def)
  have 1: "snd (trackEvent ?ctx ''quiz_loaded'' ''{}'' sample_world) = Inl SinkException"
    using th[THEN conjunct2, THEN conjunct1] f by simp
  have 2: "fst (trackEvent ?ctx ''quiz_loaded'' ''{}'' sample_world)
     = fst (trackEvent (sample_env ''s1'' 5) ''quiz_loaded'' ''{}'' sample_world)"
    using th[THEN conjunct1] c0 by simp
  have 3: "map event (events (document (fst (trackEvent ?ctx ''quiz_loaded'' ''{}'' sample_world))))
     = [''quiz_loaded'']"
    using th[THEN conjunct2, THEN conjunct2, THEN conjunct1]
    by (simp add: document_sample_world getDefaultData_def event_of_def)
  have 4: "localStorage (fst (trackEvent ?ctx ''quiz_loaded'' ''{}'' sample_world)) = Some ''{}''"
    using th[THEN conjunct2, THEN conjunct2, THEN conjunct2, THEN conjunct2, THEN conjunct2,
        THEN conjunct2, THEN conjunct2] f
    by simp
  from 1 2 3 4 show ?thesis by blast
qed

section \<open>The conversion rates in double arithmetic\<close>

text \<open>
  Rounding to a double changes a positive value by at most the fraction \<open>1 / 2 ^ 53\<close> of
  it. The quotient and the product of \<open>rate\<close> are each rounded once, so the value handed
  to \<open>toFixed\<close>, scaled by 100, is within \<open>30000 * q / 2 ^ 53\<close> of \<open>10000 * q\<close> for the
  exact quotient \<open>q\<close>. The exact value \<open>10000 * numerator / denominator\<close> is a multiple
  of \<open>1 / denominator\<close>; unless it is a half-integer it is at least
  \<open>1 / (2 * denominator)\<close> away from every half-integer, which is more than the error
  when the numerator is below \<open>2 ^ 37\<close>.
\<close>

lemma round_ties_even_error: "\<bar>of_int (round_ties_even y) - y\<bar> \<le> 1 / 2"
proof -
  have "of_int \<lfloor>y\<rfloor> \<le> y" "y < of_int \<lfloor>y\<rfloor> + 1"
    by linarith+
  then show ?thesis
    by (auto simp: round_ties_even_def Let_def abs_le_iff)
qed

lemma ilog2_bounds:
  assumes "0 < x"
  shows "2 powi ilog2 x \<le> x" and "x < 2 powi (ilog2 x + 1)"
proof -
  have "2 powi ilog2 x \<le> x \<and> x < 2 powi (ilog2 x + 1)"
  proof (cases "1 \<le> x")
    case True
    define n where "n = nat \<lfloor>x\<rfloor>"
    define k where "k = floorlog 2 n"
    from True have n1: "1 \<le> n" by (simp add: n_def le_nat_iff)
    then have b: "2 ^ (k - 1) \<le> n" "n < 2 ^ k"
      using floorlog_bounds[of n 2] by (simp_all add: k_def)
    have k1: "1 \<le> k"
      using b n1 by (cases k) auto
    have nx: "of_nat n \<le> x" "x < of_nat n + 1"
      using True by (simp_all add: n_def) linarith+
    have il: "ilog2 x = int k - 1"
      using True by (simp add: ilog2_def n_def k_def)
    have "(2::rat) ^ (k - 1) \<le> of_nat n"
      using b(1) by (metis of_nat_le_iff of_nat_numeral of_nat_power)
    then have lo: "(2::rat) ^ (k - 1) \<le> x" using nx by linarith
    have "n + 1 \<le> 2 ^ k" using b(2) by simp
    then have "(of_nat (n + 1) :: rat) \<le> 2 ^ k"
      by (metis of_nat_le_iff of_nat_numeral of_nat_power)
    then have hi: "x < (2::rat) ^ k" using nx by simp
    have e1: "int k - 1 = int (k - 1)" using k1 by simp
    have p1: "(2::rat) powi (int k - 1) = 2 ^ (k - 1)"
      unfolding e1 by (rule power_int_of_nat)
    have p2: "(2::rat) powi (int k - 1 + 1) = 2 ^ k"
      by simp
    show ?thesis
      unfolding il p1 p2 using lo hi by blast
  next
    case False
    define y where "y = 1 / x"
    define c where "c = nat \<lceil>y\<rceil>"
    define j where "j = floorlog 2 (c - 1)"
    from False assms have y1: "1 < y" by (simp add: y_def)
    then have "2 \<le> \<lceil>y\<rceil>" by linarith
    then have c2: "2 \<le> c" by (simp add: c_def le_nat_iff)
    then have b: "2 ^ (j - 1) \<le> c - 1" "c - 1 < 2 ^ j"
      using floorlog_bounds[of "c - 1" 2] by (simp_all add: j_def)
    have j1: "1 \<le> j"
      using b c2 by (cases j) auto
    have cy: "y \<le> of_nat c" "of_nat c - 1 < y"
      using y1 by (simp_all add: c_def) linarith+
    have il: "ilog2 x = - int j"
      using False by (simp add: ilog2_def y_def c_def j_def)
    have "c \<le> 2 ^ j" using b(2) by simp
    then have "(of_nat c :: rat) \<le> 2 ^ j"
      by (metis of_nat_le_iff of_nat_numeral of_nat_power)
    then have yle: "y \<le> 2 ^ j" using cy by linarith
    have "(of_nat (2 ^ (j - 1)) :: rat) \<le> of_nat (c - 1)"
      using b(1) by (simp only: of_nat_le_iff)
    then have "(2::rat) ^ (j - 1) \<le> of_nat c - 1"
      using c2 by (simp add: of_nat_diff)
    then have ygt: "(2::rat) ^ (j - 1) < y" using cy by linarith
    have xy: "x = 1 / y" using assms by (simp add: y_def)
    have lo: "1 / (2::rat) ^ j \<le> x"
      unfolding xy using yle y1 by (simp add: frac_le)
    have hi: "x < 1 / (2::rat) ^ (j - 1)"
      unfolding xy using ygt by (simp add: frac_less2)
    have p1: "(2::rat) powi (- int j) = 1 / 2 ^ j"
      by (simp only: power_int_minus power_int_of_nat inverse_eq_divide)
    have e2: "- int j + 1 = - int (j - 1)" using j1 by simp
    have p2: "(2::rat) powi (- int j + 1) = 1 / 2 ^ (j - 1)"
      unfolding e2 by (simp only: power_int_minus power_int_of_nat inverse_eq_divide)
    show ?thesis
      unfolding il p1 p2 using lo hi by blast
  qed
  then show "2 powi ilog2 x \<le> x" and "x < 2 powi (ilog2 x + 1)"
    by simp_all
qed

lemma to_double_error:
  assumes "0 < x"
  shows "\<bar>to_double x - x\<bar> \<le> x / 2 ^ 53"
proof -
  define e where "e = ilog2 x - 52"
  define p where "p = (2::rat) powi e"
  define m where "m = round_ties_even (x / p)"
  have p0: "0 < p" by (simp add: p_def)
  have td: "to_double x = of_int m * p"
    using assms by (simp add: to_double_def Let_def e_def p_def m_def)
  have "\<bar>of_int m - x / p\<bar> \<le> 1 / 2"
    unfolding m_def by (rule round_ties_even_error)
  then have "\<bar>of_int m - x / p\<bar> * p \<le> 1 / 2 * p"
    using p0 by (intro mult_right_mono) simp_all
  moreover have "\<bar>of_int m - x / p\<bar> * p = \<bar>of_int m * p - x\<bar>"
    using p0 by (simp add: abs_mult_pos[symmetric] field_simps)
  ultimately have err: "\<bar>to_double x - x\<bar> \<le> p / 2"
    by (simp add: td)
  have "ilog2 x = e + 52" by (simp add: e_def)
  then have "(2::rat) powi ilog2 x = p * 2 ^ 52"
    by (simp add: p_def power_int_add)
  with ilog2_bounds(1)[OF assms] have "p * 2 ^ 52 \<le> x" by simp
  then have "p / 2 \<le> x / 2 ^ 53" by (simp add: field_simps)
  with err show ?thesis by linarith
qed

lemma nearest_of_close:
  fixes y :: rat and a b :: nat and n :: int
  assumes b: "0 < b"
    and n: "n = \<lfloor>y + 1 / 2\<rfloor>"
    and close: "\<bar>y - 10000 * of_nat a / of_nat b\<bar> < 1 / (2 * of_nat b)"
  shows "\<bar>of_int n - 10000 * of_nat a / of_nat b\<bar> \<le> (1 / 2 :: rat)"
proof -
  define v :: rat where "v = 10000 * of_nat a / of_nat b"
  define B :: rat where "B = of_nat b"
  have B0: "0 < B" using b by (simp add: B_def)
  have vB: "v * B = 10000 * of_nat a"
    using B0 by (simp add: v_def B_def)
  have fl: "of_int n \<le> y + 1 / 2" "y + 1 / 2 < of_int n + 1"
    unfolding n by linarith+
  have cl: "y - v < 1 / (2 * B)" "v - y < 1 / (2 * B)"
    using close by (simp_all add: v_def B_def abs_less_iff)
  have up: "of_int n - v \<le> 1 / 2"
  proof (rule ccontr)
    assume "\<not> of_int n - v \<le> 1 / 2"
    then have gt: "1 / 2 < of_int n - v" by simp
    define t :: int where "t = 2 * int b * n - 20000 * int a - int b"
    have tv: "of_int t = 2 * B * (of_int n - v - 1 / 2)"
      using vB by (simp add: t_def B_def algebra_simps)
    have "0 < 2 * B * (of_int n - v - 1 / 2)"
      using gt B0 by simp
    then have "0 < (of_int t :: rat)" by (simp only: tv)
    then have "1 \<le> t" by simp
    then have "(1::rat) \<le> of_int t" by (metis of_int_1_le_iff)
    then have "1 \<le> 2 * B * (of_int n - v - 1 / 2)" by (simp only: tv)
    then have "1 / (2 * B) \<le> of_int n - v - 1 / 2"
      using B0 by (simp add: field_simps)
    moreover have "of_int n - v - 1 / 2 \<le> y - v" using fl(1) by simp
    ultimately show False using cl(1) by linarith
  qed
  have lo: "v - of_int n \<le> 1 / 2"
  proof (rule ccontr)
    assume "\<not> v - of_int n \<le> 1 / 2"
    then have gt: "1 / 2 < v - of_int n" by simp
    define t :: int where "t = 20000 * int a - 2 * int b * n - int b"
    have tv: "of_int t = 2 * B * (v - of_int n - 1 / 2)"
      using vB by (simp add: t_def B_def algebra_simps)
    have "0 < 2 * B * (v - of_int n - 1 / 2)"
      using gt B0 by simp
    then have "0 < (of_int t :: rat)" by (simp only: tv)
    then have "1 \<le> t" by simp
    then have "(1::rat) \<le> of_int t" by (metis of_int_1_le_iff)
    then have "1 \<le> 2 * B * (v - of_int n - 1 / 2)" by (simp only: tv)
    then have "1 / (2 * B) \<le> v - of_int n - 1 / 2"
      using B0 by (simp add: field_simps)
    moreover have "v - of_int n - 1 / 2 < v - y" using fl(2) by simp
    ultimately show False using cl(2) by linarith
  qed
  from up lo have "\<bar>of_int n - v\<bar> \<le> 1 / 2" by linarith
  then show ?thesis by (simp only: v_def)
qed

lemma double_product_close:
  fixes q :: rat
  assumes "0 < q"
  shows "0 < to_double (to_double q * 100)"
    and "\<bar>to_double (to_double q * 100) * 100 - 10000 * q\<bar> \<le> 30000 * q / 2 ^ 53"
proof -
  define u :: rat where "u = 1 / 2 ^ 53"
  define x1 where "x1 = to_double q"
  define x2 where "x2 = to_double (x1 * 100)"
  have u0: "0 < u" "u \<le> 1 / 2" by (simp_all add: u_def)
  have e1: "\<bar>x1 - q\<bar> \<le> q * u"
    using to_double_error[OF assms] by (simp add: x1_def u_def)
  then have x1b: "q * (1 - u) \<le> x1" "x1 \<le> q * (1 + u)"
    by (simp_all add: abs_le_iff algebra_simps)
  have "0 < q * (1 - u)" using assms u0 by simp
  with x1b have x1p: "0 < x1" by linarith
  then have "0 < x1 * 100" by simp
  from to_double_error[OF this] have e2: "\<bar>x2 - x1 * 100\<bar> \<le> x1 * 100 * u"
    by (simp add: x2_def u_def)
  then have "x1 * 100 * (1 - u) \<le> x2"
    by (simp add: abs_le_iff algebra_simps)
  moreover have "0 < x1 * 100 * (1 - u)" using x1p u0 by simp
  ultimately show "0 < to_double (to_double q * 100)"
    unfolding x2_def x1_def by linarith
  have qu: "q * u * u \<le> q * u"
    using assms u0 by (simp add: mult_left_le)
  have "x1 * 100 * u \<le> q * (1 + u) * 100 * u"
    using x1b(2) u0 by (simp add: mult_right_mono)
  with e2 have e2': "\<bar>x2 - x1 * 100\<bar> \<le> 100 * q * u + 100 * (q * u * u)"
    by (simp add: algebra_simps)
  have split: "x2 - 100 * q = (x2 - x1 * 100) + 100 * (x1 - q)"
    by (simp add: algebra_simps)
  have "\<bar>x2 - 100 * q\<bar> \<le> \<bar>x2 - x1 * 100\<bar> + \<bar>100 * (x1 - q)\<bar>"
    unfolding split by (rule abs_triangle_ineq)
  moreover have "\<bar>100 * (x1 - q)\<bar> = 100 * \<bar>x1 - q\<bar>"
    by (simp only: abs_mult)
  ultimately have "\<bar>x2 - 100 * q\<bar> \<le> \<bar>x2 - x1 * 100\<bar> + 100 * \<bar>x1 - q\<bar>"
    by simp
  with e1 e2' qu have "\<bar>x2 - 100 * q\<bar> \<le> 300 * q * u"
    by linarith
  then have "100 * \<bar>x2 - 100 * q\<bar> \<le> 100 * (300 * q * u)"
    by simp
  moreover have "100 * \<bar>x2 - 100 * q\<bar> = \<bar>x2 * 100 - 10000 * q\<bar>"
  proof -
    have eq: "x2 * 100 - 10000 * q = 100 * (x2 - 100 * q)"
      by (simp add: algebra_simps)
    show ?thesis unfolding eq by (simp only: abs_mult)
  qed
  ultimately show "\<bar>to_double (to_double q * 100) * 100 - 10000 * q\<bar> \<le> 30000 * q / 2 ^ 53"
    unfolding x2_def x1_def u_def by simp
qed

lemma rate_accuracy:
  assumes b: "0 < b" and a: "a < 2 ^ 37"
  shows "\<exists>n. rate a b = fixed2 n
    \<and> \<bar>of_nat n - 10000 * of_nat a / of_nat b\<bar> \<le> (1 / 2 :: rat)"
proof (cases "a = 0")
  case True
  have "rate 0 b = fixed2 0"
    by (simp add: rate_def js_div_def js_mul_def to_double_def toFixed2_def)
  then show ?thesis using True by auto
next
  case False
  define q :: rat where "q = of_nat a / of_nat b"
  define y where "y = to_double (to_double q * 100) * 100"
  define n where "n = \<lfloor>y + 1 / 2\<rfloor>"
  have q0: "0 < q" using False b by (simp add: q_def)
  have B0: "0 < (of_nat b :: rat)" using b by simp
  have y0: "0 < y"
    using double_product_close(1)[OF q0] by (simp add: y_def)
  have cl: "\<bar>y - 10000 * q\<bar> \<le> 30000 * q / 2 ^ 53"
    using double_product_close(2)[OF q0] by (simp add: y_def)
  have "60000 * a < 2 ^ 53" using a by simp
  then have "(of_nat (60000 * a) :: rat) < of_nat (2 ^ 53)"
    by (simp only: of_nat_less_iff)
  then have "60000 * (of_nat a :: rat) < 2 ^ 53" by simp
  then have "30000 * q / 2 ^ 53 < 1 / (2 * of_nat b)"
    using B0 by (simp add: q_def field_simps)
  with cl have "\<bar>y - 10000 * of_nat a / of_nat b\<bar> < 1 / (2 * of_nat b)"
    by (simp add: q_def)
  from nearest_of_close[OF b n_def this]
  have acc: "\<bar>of_int n - 10000 * of_nat a / of_nat b\<bar> \<le> (1 / 2 :: rat)" .
  have n0: "0 \<le> n" using y0 by (simp add: n_def)
  have r: "rate a b = fixed2 (nat n)"
    by (simp add: rate_def js_div_def js_mul_def toFixed2_def n_def y_def q_def)
  have "(of_nat (nat n) :: rat) = of_int n" using n0 by simp
  with acc r show ?thesis by metis
qed

lemma show_nat_small: "n < 10 \<Longrightarrow> show_nat n = [digit_char n]"
  by (subst show_nat.simps) simp

lemma show_nat_large: "10 \<le> n \<Longrightarrow> show_nat n = show_nat (n div 10) @ [digit_char (n mod 10)]"
  by (subst show_nat.simps) simp

lemma digit_char_0: "digit_char 0 = CHR ''0''"
  by (simp add: digit_char_def)

lemma fixed2_shape:
  "fixed2 n = show_nat (n div 100) @ ''.'' @ [digit_char (n div 10 mod 10), digit_char (n mod 10)]"
proof -
  consider "n < 10" | "10 \<le> n" "n < 100" | "100 \<le> n" by linarith
  then show ?thesis
  proof cases
    case 1
    then show ?thesis
      by (simp add: fixed2_def show_nat_small digit_char_0 numeral_2_eq_2)
  next
    case 2
    then have "n div 10 < 10" by simp
    with 2 show ?thesis
      by (simp add: fixed2_def show_nat_large show_nat_small digit_char_0)
  next
    case 3
    then have a: "10 \<le> n" and b: "10 \<le> n div 10" by simp_all
    have d: "n div 10 div 10 = n div 100"
      by (simp add: div_mult2_eq[symmetric])
    have s: "show_nat n =
        show_nat (n div 100) @ [digit_char (n div 10 mod 10), digit_char (n mod 10)]"
      by (simp add: show_nat_large[OF a] show_nat_large[OF b] d)
    have l: "1 \<le> length (show_nat (n div 100))"
      using show_nat_nonempty[of "n div 100"] by (cases "show_nat (n div 100)") simp_all
    show ?thesis
      using l by (simp add: fixed2_def s)
  qed
qed

lemma eval_rate:
  assumes "nat \<lfloor>js_mul (js_div (of_nat a) (of_nat b)) 100 * 100 + 1 / 2\<rfloor> = n"
    and "fixed2 n = s"
  shows "rate a b = s"
  using assms by (simp only: rate_def toFixed2_def)

lemma fixed2_values:
  "fixed2 4000 = ''40.00''" "fixed2 2500 = ''25.00''" "fixed2 8000 = ''80.00''"
  "fixed2 5000 = ''50.00''" "fixed2 100 = ''1.00''" "fixed2 1437 = ''14.37''"
  "fixed2 1438 = ''14.38''" "fixed2 3333 = ''33.33''"
  by (simp_all add: fixed2_def show_nat.simps digit_char_def)

lemma rate_40_100: "rate 40 100 = ''40.00''"
  by (rule eval_rate[OF _ fixed2_values(1)]) code_simp

lemma rate_10_40: "rate 10 40 = ''25.00''"
  by (rule eval_rate[OF _ fixed2_values(2)]) code_simp

lemma rate_8_10: "rate 8 10 = ''80.00''"
  by (rule eval_rate[OF _ fixed2_values(3)]) code_simp

lemma rate_4_8: "rate 4 8 = ''50.00''"
  by (rule eval_rate[OF _ fixed2_values(4)]) code_simp

lemma rate_1_4: "rate 1 4 = ''25.00''"
  by (rule eval_rate[OF _ fixed2_values(2)]) code_simp

lemma rate_1_100: "rate 1 100 = ''1.00''"
  by (rule eval_rate[OF _ fixed2_values(5)]) code_simp

lemma rate_23_160: "rate 23 160 = ''14.37''"
  by (rule eval_rate[OF _ fixed2_values(6)]) code_simp

lemma rate_1_3: "rate 1 3 = ''33.33''"
  by (rule eval_rate[OF _ fixed2_values(8)]) code_simp

lemma exact_rate_23_160: "exact_rate 23 160 = ''14.38''"
proof -
  have "nat \<lfloor>(100 * of_nat 23 / of_nat 160 :: rat) * 100 + 1 / 2\<rfloor> = 1438"
    by code_simp
  then show ?thesis
    by (simp only: exact_rate_def toFixed2_def fixed2_values)
qed

lemma conversionRates_row:
  assumes "(k, numerator, denominator) \<in> set rate_table"
    and "denominator (funnelMetrics d) \<noteq> 0"
  shows "conversionRates (calculateConversionRates d) k =
    Some (rate (numerator (funnelMetrics d)) (denominator (funnelMetrics d)))"
proof -
  from assms(1) have
    "k = ''quizStartRate'' \<and> numerator = quiz_started \<and> denominator = quiz_loaded
     \<or> k = ''quizCompletionRate'' \<and> numerator = quiz_completed \<and> denominator = quiz_started
     \<or> k = ''salesPageViewRate'' \<and> numerator = sales_page_loaded
         \<and> denominator = quiz_completed
     \<or> k = ''scrollRate'' \<and> numerator = sales_page_scrolled
         \<and> denominator = sales_page_loaded
     \<or> k = ''checkoutClickRate'' \<and> numerator = checkout_clicked
         \<and> denominator = sales_page_scrolled
     \<or> k = ''overallConversionRate'' \<and> numerator = checkout_clicked
         \<and> denominator = quiz_loaded"
    unfolding rate_table_def by simp
  then show ?thesis
    using assms(2)
    by (elim disjE conjE)
      (simp_all add: calculateConversionRates_apply computeConversionRates_apply)
qed

lemma rate_Suc0_4: "rate (Suc 0) 4 = ''25.00''"
  using rate_1_4 by simp

lemma rate_Suc0_100: "rate (Suc 0) 100 = ''1.00''"
  using rate_1_100 by simp

lemma sample_rates:
  "conversionRates (calculateConversionRates (with_metrics sample_metrics)) =
     [''quizStartRate'' \<mapsto> ''40.00'', ''quizCompletionRate'' \<mapsto> ''25.00'',
      ''salesPageViewRate'' \<mapsto> ''80.00'', ''scrollRate'' \<mapsto> ''50.00'',
      ''checkoutClickRate'' \<mapsto> ''25.00'', ''overallConversionRate'' \<mapsto> ''1.00'']"
  by (rule ext)
    (simp add: calculateConversionRates_apply computeConversionRates_apply with_metrics_def
      sample_metrics_def getDefaultData_def rate_40_100 rate_10_40 rate_8_10 rate_4_8
      rate_Suc0_4 rate_Suc0_100)

text \<open>
  Claim C1, as stated, fails at a tie. With \<open>quiz_loaded = 160\<close> and \<open>quiz_started = 23\<close>
  the percentage \<open>100 * 23 / 160\<close> is exactly 14.375, which formatted with two decimals
  is \<open>14.38\<close> (rounding half up, as \<open>toFixed\<close> does on the exact value, and rounding
  half to even alike). The code divides first: \<open>23 / 160\<close> is the double just below
  0.14375, its product with 100 is the double 14.374999999999998, and \<open>toFixed(2)\<close>
  gives \<open>14.37\<close>.
\<close>

theorem exact_percentage_counterexample:
  "conversionRates (calculateConversionRates (with_metrics tie_metrics :: string ledger))
     ''quizStartRate'' = Some ''14.37''
   \<and> exact_rate (quiz_started tie_metrics) (quiz_loaded tie_metrics) = ''14.38''"
  by (simp add: calculateConversionRates_apply computeConversionRates_apply with_metrics_def
      tie_metrics_def getDefaultData_def rate_23_160 exact_rate_23_160)

text \<open>
  Claim C1, amended. For the counters 100, 40, 10, 8, 4, 1 the six rates are \<open>40.00\<close>,
  \<open>25.00\<close>, \<open>80.00\<close>, \<open>50.00\<close>, \<open>25.00\<close> and \<open>1.00\<close>. In general, for
  each row of the table whose denominator is not zero, the rate is
  \<open>((numerator / denominator) * 100).toFixed(2)\<close> in double arithmetic: a string made of
  the digits of an integer part, a point and exactly two digits, and (for a numerator
  below \<open>2 ^ 37\<close>) the number it denotes is within 0.005 of
  \<open>100 * numerator / denominator\<close>, so it is a nearest two-decimal value; which of the
  two nearest values is produced at an exact tie is left open.
\<close>

theorem calculateConversionRates_rates:
  "conversionRates (calculateConversionRates (with_metrics sample_metrics)) =
     [''quizStartRate'' \<mapsto> ''40.00'', ''quizCompletionRate'' \<mapsto> ''25.00'',
      ''salesPageViewRate'' \<mapsto> ''80.00'', ''scrollRate'' \<mapsto> ''50.00'',
      ''checkoutClickRate'' \<mapsto> ''25.00'', ''overallConversionRate'' \<mapsto> ''1.00'']
   \<and> (\<forall>k numerator denominator d.
        (k, numerator, denominator) \<in> set rate_table
        \<longrightarrow> denominator (funnelMetrics d) \<noteq> 0
        \<longrightarrow> numerator (funnelMetrics d) < 2 ^ 37
        \<longrightarrow> conversionRates (calculateConversionRates d) k =
              Some (rate (numerator (funnelMetrics d)) (denominator (funnelMetrics d)))
          \<and> (\<exists>n. rate (numerator (funnelMetrics d)) (denominator (funnelMetrics d)) =
                 show_nat (n div 100) @ ''.'' @
                   [digit_char (n div 10 mod 10), digit_char (n mod 10)]
               \<and> \<bar>of_nat n / 100
                    - 100 * of_nat (numerator (funnelMetrics d))
                        / of_nat (denominator (funnelMetrics d))\<bar> \<le> (1 / 200 :: rat)))"
proof (intro conjI allI impI)
  show "conversionRates (calculateConversionRates (with_metrics sample_metrics)) =
     [''quizStartRate'' \<mapsto> ''40.00'', ''quizCompletionRate'' \<mapsto> ''25.00'',
      ''salesPageViewRate'' \<mapsto> ''80.00'', ''scrollRate'' \<mapsto> ''50.00'',
      ''checkoutClickRate'' \<mapsto> ''25.00'', ''overallConversionRate'' \<mapsto> ''1.00'']"
    by (rule sample_rates)
next
  fix k :: string and numerator denominator :: "funnel_metrics \<Rightarrow> nat" and d :: "'b ledger"
  assume row: "(k, numerator, denominator) \<in> set rate_table"
    and den: "denominator (funnelMetrics d) \<noteq> 0"
    and num: "numerator (funnelMetrics d) < 2 ^ 37"
  show "conversionRates (calculateConversionRates d) k =
      Some (rate (numerator (funnelMetrics d)) (denominator (funnelMetrics d)))"
    by (rule conversionRates_row[OF row den])
  from den have "0 < denominator (funnelMetrics d)" by simp
  from rate_accuracy[OF this num] obtain n where
    r: "rate (numerator (funnelMetrics d)) (denominator (funnelMetrics d)) = fixed2 n"
    and acc: "\<bar>of_nat n - 10000 * of_nat (numerator (funnelMetrics d))
        / of_nat (denominator (funnelMetrics d))\<bar> \<le> (1 / 2 :: rat)"
    by blast
  from acc have "\<bar>of_nat n / 100 - 100 * of_nat (numerator (funnelMetrics d))
        / of_nat (denominator (funnelMetrics d))\<bar> \<le> (1 / 200 :: rat)"
    by (simp add: abs_le_iff field_simps)
  with r show "\<exists>n. rate (numerator (funnelMetrics d)) (denominator (funnelMetrics d)) =
                 show_nat (n div 100) @ ''.'' @
                   [digit_char (n div 10 mod 10), digit_char (n mod 10)]
               \<and> \<bar>of_nat n / 100
                    - 100 * of_nat (numerator (funnelMetrics d))
                        / of_nat (denominator (funnelMetrics d))\<bar> \<le> (1 / 200 :: rat)"
    unfolding fixed2_shape by blast
qed

text \<open>
  Claim C1, amended, at the row \<open>quizStartRate\<close> for \<open>quiz_started = 23\<close> and
  \<open>quiz_loaded = 160\<close>: the rate is \<open>14.37\<close>, at distance 0.005 from 14.375.
\<close>

theorem calculateConversionRates_rates_witness:
  "conversionRates (calculateConversionRates (with_metrics tie_metrics :: string ledger))
     ''quizStartRate'' = Some (rate 23 160)
   \<and> rate 23 160 = show_nat (1437 div 100) @ ''.'' @
        [digit_char (1437 div 10 mod 10), digit_char (1437 mod 10)]
   \<and> \<bar>of_nat 1437 / 100 - 100 * of_nat 23 / of_nat 160\<bar> \<le> (1 / 200 :: rat)"
proof -
  let ?d = "with_metrics tie_metrics :: string ledger"
  have row: "(''quizStartRate'', quiz_started, quiz_loaded) \<in> set rate_table"
    by (simp add: rate_table_def)
  have m: "quiz_loaded (funnelMetrics ?d) = 160" "quiz_started (funnelMetrics ?d) = 23"
    by (simp_all add: with_metrics_def tie_metrics_def)
  have den: "quiz_loaded (funnelMetrics ?d) \<noteq> 0" and num: "quiz_started (funnelMetrics ?d) < 2 ^ 37"
    by (simp_all add: m)
  from calculateConversionRates_rates[THEN conjunct2, rule_format, OF row den num]
  have 1: "conversionRates (calculateConversionRates ?d) ''quizStartRate'' = Some (rate 23 160)"
    by (simp add: m)
  have 2: "rate 23 160 = show_nat (1437 div 100) @ ''.'' @
        [digit_char (1437 div 10 mod 10), digit_char (1437 mod 10)]"
    by (simp add: rate_23_160 show_nat.simps digit_char_def)
  have 3: "\<bar>of_nat 1437 / 100 - 100 * of_nat 23 / of_nat 160\<bar> \<le> (1 / 200 :: rat)"
    by simp
  from 1 2 3 show ?thesis by blast
qed

end
